theory Spec2Isabelle
  imports Main "HOL-Library.Sublist"
begin

section \<open>Go strings and the library functions the decoders call\<close>

text \<open>
  A Go string is a sequence of bytes, here a \<open>char list\<close>.  The functions below follow
  package \<open>strings\<close> for a non-empty separator, which is how the decoders call them
  (every separator in the source is a literal such as \<open>";"\<close>, \<open>" :"\<close> or \<open>"\\s"\<close>).
  A run-time panic of Go (index out of range, slice bounds out of range, a failed type
  assertion) is a value of
  type \<open>panic\<close>, and a function that can panic returns \<open>panic + 'a\<close>.
\<close>

datatype panic = IndexOutOfRange | SliceBoundsOutOfRange | InterfaceConversion

fun Index :: "string \<Rightarrow> string \<Rightarrow> nat option" where
  "Index [] sep = (if sep = [] then Some 0 else None)"
| "Index (c # cs) sep =
     (if prefix sep (c # cs) then Some 0 else map_option Suc (Index cs sep))"

lemma Index_bound: "Index s sep = Some i \<Longrightarrow> i + length sep \<le> length s"
  by (induction s arbitrary: i) (auto split: if_splits dest: prefix_length_le)

lemma Index_shrinks:
  assumes "Index s sep = Some i" and "sep \<noteq> []"
  shows "length (drop (i + length sep) s) < length s"
proof -
  have "i + length sep \<le> length s" using assms(1) by (rule Index_bound)
  moreover have "0 < length sep" using assms(2) by simp
  ultimately have "length s - (i + length sep) < length s" by arith
  then show ?thesis by simp
qed

definition HasPrefix :: "string \<Rightarrow> string \<Rightarrow> bool" where
  "HasPrefix s p = prefix p s"

definition HasSuffix :: "string \<Rightarrow> string \<Rightarrow> bool" where
  "HasSuffix s p = suffix p s"

definition TrimPrefix :: "string \<Rightarrow> string \<Rightarrow> string" where
  "TrimPrefix s p = (if HasPrefix s p then drop (length p) s else s)"

definition Contains :: "string \<Rightarrow> string \<Rightarrow> bool" where
  "Contains s sub = (Index s sub \<noteq> None)"

text \<open>\<open>strings.SplitN(s, sep, n)\<close>: \<open>n = 0\<close> gives no pieces, \<open>n < 0\<close> all of them,
  \<open>n > 0\<close> at most \<open>n\<close>, the last one being the unsplit rest.\<close>

function SplitN :: "string \<Rightarrow> string \<Rightarrow> int \<Rightarrow> string list" where
  "SplitN s sep n =
     (if n = 0 then []
      else if n = 1 \<or> sep = [] then [s]
      else (case Index s sep of
              None \<Rightarrow> [s]
            | Some i \<Rightarrow> take i s # SplitN (drop (i + length sep) s) sep (n - 1)))"
  by pat_completeness auto
termination
  by (relation "measure (\<lambda>(s, sep, n). length s)") (auto dest: Index_shrinks)

definition Split :: "string \<Rightarrow> string \<Rightarrow> string list" where
  "Split s sep = SplitN s sep (- 1)"

text \<open>\<open>strings.Count\<close>: the number of non-overlapping occurrences.\<close>

function strCount :: "string \<Rightarrow> string \<Rightarrow> nat" where
  "strCount s sub =
     (if sub = [] then 0
      else (case Index s sub of
              None \<Rightarrow> 0
            | Some i \<Rightarrow> Suc (strCount (drop (i + length sub) s) sub)))"
  by pat_completeness auto
termination
  by (relation "measure (\<lambda>(s, sub). length s)") (auto dest: Index_shrinks)

function ReplaceAll :: "string \<Rightarrow> string \<Rightarrow> string \<Rightarrow> string" where
  "ReplaceAll s old new =
     (if old = [] then s
      else (case Index s old of
              None \<Rightarrow> s
            | Some i \<Rightarrow> take i s @ new @ ReplaceAll (drop (i + length old) s) old new))"
  by pat_completeness auto
termination
  by (relation "measure (\<lambda>(s, old, new). length s)") (auto dest: Index_shrinks)

declare SplitN.simps [simp del] strCount.simps [simp del] ReplaceAll.simps [simp del]

text \<open>\<open>strings.Join\<close>.\<close>

fun Join :: "string list \<Rightarrow> string \<Rightarrow> string" where
  "Join [] sep = []"
| "Join [x] sep = x"
| "Join (x # y # ys) sep = x @ sep @ Join (y # ys) sep"

text \<open>Indexing a slice, checked against its length, and slicing a string \<open>s[lo:hi]\<close>,
  checked against the length of the string: out of range is a panic.\<close>

definition at :: "'a list \<Rightarrow> nat \<Rightarrow> panic + 'a" where
  "at xs i = (if i < length xs then Inr (xs ! i) else Inl IndexOutOfRange)"

definition slice :: "string \<Rightarrow> int \<Rightarrow> int \<Rightarrow> panic + string" where
  "slice xs lo hi =
     (if 0 \<le> lo \<and> lo \<le> hi \<and> hi \<le> int (length xs)
      then Inr (take (nat hi - nat lo) (drop (nat lo) xs))
      else Inl SliceBoundsOutOfRange)"

subsection \<open>strconv\<close>

text \<open>
  \<open>strconv.ParseInt(s, 10, 64)\<close> returns a value and an error.  A syntax error gives the
  value 0; a range error gives the nearest 64-bit bound.  \<open>strconv.Atoi\<close> is the same
  function on a 64-bit platform, and the decoders drop its error.
\<close>

datatype numError = ErrSyntax | ErrRange

definition isDigit :: "char \<Rightarrow> bool" where
  "isDigit c = (48 \<le> (of_char c :: nat) \<and> (of_char c :: nat) \<le> 57)"

definition digitsVal :: "string \<Rightarrow> int" where
  "digitsVal ds = foldl (\<lambda>n c. n * 10 + (int (of_char c) - 48)) 0 ds"

definition ParseInt :: "string \<Rightarrow> int \<times> numError option" where
  "ParseInt s =
     (let neg = (s \<noteq> [] \<and> hd s = CHR ''-'');
          ds = (if s \<noteq> [] \<and> (hd s = CHR ''-'' \<or> hd s = CHR ''+'') then tl s else s)
      in if ds = [] \<or> \<not> list_all isDigit ds then (0, Some ErrSyntax)
         else let un = digitsVal ds
              in if \<not> neg \<and> un \<ge> 2 ^ 63 then (2 ^ 63 - 1, Some ErrRange)
                 else if neg \<and> un > 2 ^ 63 then (- (2 ^ 63), Some ErrRange)
                 else (if neg then - un else un, None))"

definition Atoi :: "string \<Rightarrow> int" where
  "Atoi s = fst (ParseInt s)"


text \<open>\<open>strings.Trim(s, " ")\<close>.\<close>

definition TrimSpaces :: "string \<Rightarrow> string" where
  "TrimSpaces s = rev (dropWhile (\<lambda>c. c = CHR '' '') (rev (dropWhile (\<lambda>c. c = CHR '' '') s)))"

subsection \<open>Runes\<close>

text \<open>
  \<open>[]rune(s)\<close> decodes UTF-8: a byte that starts no well-formed sequence becomes U+FFFD
  and one byte is consumed.  \<open>string(rs)\<close> encodes again.
\<close>

type_synonym rune = nat

definition cont :: "nat \<Rightarrow> bool" where
  "cont b = (128 \<le> b \<and> b \<le> 191)"

definition byteAt :: "string \<Rightarrow> nat \<Rightarrow> nat" where
  "byteAt s i = (if i < length s then of_char (s ! i) else 0)"

definition decodeRune :: "string \<Rightarrow> rune \<times> nat" where
  "decodeRune s =
     (let n = length s; b0 = byteAt s 0; b1 = byteAt s 1; b2 = byteAt s 2; b3 = byteAt s 3;
          lo = (if b0 = 224 then 160 else if b0 = 240 then 144 else 128);
          hi = (if b0 = 237 then 159 else if b0 = 244 then 143 else 191)
      in if b0 < 128 then (b0, 1)
         else if 194 \<le> b0 \<and> b0 \<le> 223 \<and> 2 \<le> n \<and> cont b1
           then ((b0 - 192) * 64 + (b1 - 128), 2)
         else if 224 \<le> b0 \<and> b0 \<le> 239 \<and> 3 \<le> n \<and> lo \<le> b1 \<and> b1 \<le> hi \<and> cont b2
           then ((b0 - 224) * 4096 + (b1 - 128) * 64 + (b2 - 128), 3)
         else if 240 \<le> b0 \<and> b0 \<le> 244 \<and> 4 \<le> n \<and> lo \<le> b1 \<and> b1 \<le> hi \<and> cont b2 \<and> cont b3
           then ((b0 - 240) * 262144 + (b1 - 128) * 4096 + (b2 - 128) * 64 + (b3 - 128), 4)
         else (65533, 1))"

lemma decodeRune_width: "0 < snd (decodeRune s)"
  by (simp add: decodeRune_def Let_def)

function runes :: "string \<Rightarrow> rune list" where
  "runes s = (if s = [] then [] else fst (decodeRune s) # runes (drop (snd (decodeRune s)) s))"
  by pat_completeness auto
termination
proof (relation "measure length")
  fix s :: string
  assume "s \<noteq> []"
  then have "0 < length s" by simp
  moreover have "0 < snd (decodeRune s)" by (rule decodeRune_width)
  ultimately have "length s - snd (decodeRune s) < length s" by arith
  then show "(drop (snd (decodeRune s)) s, s) \<in> measure length" by simp
qed simp

declare runes.simps [simp del]

definition encodeRune :: "rune \<Rightarrow> string" where
  "encodeRune r =
     (if r < 128 then [char_of r]
      else if r < 2048 then [char_of (192 + r div 64), char_of (128 + r mod 64)]
      else if (55296 \<le> r \<and> r \<le> 57343) \<or> 1114111 < r
        then [char_of (239::nat), char_of (191::nat), char_of (189::nat)]
      else if r < 65536
        then [char_of (224 + r div 4096), char_of (128 + r div 64 mod 64), char_of (128 + r mod 64)]
      else [char_of (240 + r div 262144), char_of (128 + r div 4096 mod 64),
            char_of (128 + r div 64 mod 64), char_of (128 + r mod 64)])"

definition stringOfRunes :: "rune list \<Rightarrow> string" where
  "stringOfRunes rs = concat (map encodeRune rs)"

subsection \<open>What the Go run time and the Unicode tables decide\<close>

text \<open>
  Two things the decoders depend on are fixed neither by the sources at hand nor by the
  language: the capacity of the slice \<open>[]rune(s)\<close>, and the table behind
  \<open>unicode.ToLower\<close>.  Both are parameters, carried in one record.

  \<open>runeCap n\<close> is the capacity the run time gives the slice of \<open>n\<close> runes.  Go
  promises a capacity of at least the length, and the run time clears the room between
  length and capacity.  A slice expression \<open>runes[lo:hi]\<close> is checked against the
  capacity, not the length: past the length and within the capacity it reads zeros.
\<close>

record goRuntime =
  runeCap :: "nat \<Rightarrow> nat"
  toLowerRune :: "rune \<Rightarrow> rune"

definition capOf :: "goRuntime \<Rightarrow> rune list \<Rightarrow> nat" where
  "capOf rt rs = max (length rs) (runeCap rt (length rs))"

definition sliceRunes :: "goRuntime \<Rightarrow> rune list \<Rightarrow> int \<Rightarrow> int \<Rightarrow> panic + rune list" where
  "sliceRunes rt rs lo hi =
     (if 0 \<le> lo \<and> lo \<le> hi \<and> hi \<le> int (capOf rt rs)
      then Inr (take (nat hi - nat lo)
                  (drop (nat lo) (rs @ replicate (capOf rt rs - length rs) 0)))
      else Inl SliceBoundsOutOfRange)"

text \<open>\<open>strings.ToLower\<close>: a string of ASCII bytes has its letters \<open>A\<close> to \<open>Z\<close>
  lowered; any other string is decoded, mapped rune by rune through \<open>unicode.ToLower\<close>
  and encoded again (so a byte that is no UTF-8 comes out as U+FFFD, as in the current
  library; on valid UTF-8 every release agrees).\<close>

definition ToLower :: "goRuntime \<Rightarrow> string \<Rightarrow> string" where
  "ToLower rt s =
     (if list_all (\<lambda>c. (of_char c :: nat) < 128) s
      then map (\<lambda>c. if 65 \<le> (of_char c :: nat) \<and> (of_char c :: nat) \<le> 90
                      then char_of ((of_char c :: nat) + 32) else c) s
      else stringOfRunes (map (toLowerRune rt) (runes s)))"

text \<open>\<open>strings.TrimSpace\<close> removes the runes of \<open>unicode.IsSpace\<close> from both ends:
  from the front decoding forwards, from the back decoding the last rune
  (\<open>utf8.DecodeLastRuneInString\<close>), and the cut after the last rune that is no space is
  placed by decoding that rune forwards.\<close>

definition isSpaceRune :: "rune \<Rightarrow> bool" where
  "isSpaceRune r =
     ((9 \<le> r \<and> r \<le> 13) \<or> r = 32 \<or> r = 133 \<or> r = 160 \<or> r = 5760
      \<or> (8192 \<le> r \<and> r \<le> 8202) \<or> r = 8232 \<or> r = 8233 \<or> r = 8239 \<or> r = 8287
      \<or> r = 12288)"

function trimLeftSpace :: "string \<Rightarrow> string" where
  "trimLeftSpace s =
     (if s = [] then []
      else if isSpaceRune (fst (decodeRune s)) then trimLeftSpace (drop (snd (decodeRune s)) s)
      else s)"
  by pat_completeness auto
termination
proof (relation "measure length")
  fix s :: string
  assume "s \<noteq> []"
  then have "0 < length s" by simp
  moreover have "0 < snd (decodeRune s)" by (rule decodeRune_width)
  ultimately have "length s - snd (decodeRune s) < length s" by arith
  then show "(drop (snd (decodeRune s)) s, s) \<in> measure length" by simp
qed simp

definition runeStart :: "nat \<Rightarrow> bool" where
  "runeStart b = (b < 128 \<or> 192 \<le> b)"

definition decodeLastRune :: "string \<Rightarrow> rune \<times> nat" where
  "decodeLastRune s =
     (let n = length s
      in if n = 0 then (65533, 0)
         else if byteAt s (n - 1) < 128 then (byteAt s (n - 1), 1)
         else let start = (if 2 \<le> n \<and> runeStart (byteAt s (n - 2)) then n - 2
                           else if 3 \<le> n \<and> runeStart (byteAt s (n - 3)) then n - 3
                           else if 4 \<le> n \<and> runeStart (byteAt s (n - 4)) then n - 4
                           else n - 4);
                  d = decodeRune (drop start s)
              in if start + snd d \<noteq> n then (65533, 1) else d)"

lemma decodeLastRune_width: "s \<noteq> [] \<Longrightarrow> 0 < snd (decodeLastRune s)"
  by (simp add: decodeLastRune_def Let_def decodeRune_width)

function lastNonSpace :: "string \<Rightarrow> nat \<Rightarrow> nat option" where
  "lastNonSpace s i =
     (if i = 0 \<or> length s < i then None
      else if \<not> isSpaceRune (fst (decodeLastRune (take i s)))
        then Some (i - snd (decodeLastRune (take i s)))
      else lastNonSpace s (i - snd (decodeLastRune (take i s))))"
  by pat_completeness auto
termination
proof (relation "measure snd")
  fix s :: string and i :: nat
  assume "\<not> (i = 0 \<or> length s < i)"
  then have "take i s \<noteq> []" and "0 < i" by auto
  then have "0 < snd (decodeLastRune (take i s))" by (simp add: decodeLastRune_width)
  with \<open>0 < i\<close> have "i - snd (decodeLastRune (take i s)) < i" by arith
  then show "((s, i - snd (decodeLastRune (take i s))), (s, i)) \<in> measure snd" by simp
qed simp

declare trimLeftSpace.simps [simp del] lastNonSpace.simps [simp del]

definition trimRightSpace :: "string \<Rightarrow> string" where
  "trimRightSpace s =
     (case lastNonSpace s (length s) of
        None \<Rightarrow> []
      | Some i \<Rightarrow> if 128 \<le> byteAt s i then take (i + snd (decodeRune (drop i s))) s
                  else take (Suc i) s)"

definition TrimSpace :: "string \<Rightarrow> string" where
  "TrimSpace s = trimRightSpace (trimLeftSpace s)"

subsection \<open>Sequencing computations that can panic\<close>

definition andThen :: "panic + 'a \<Rightarrow> ('a \<Rightarrow> panic + 'b) \<Rightarrow> panic + 'b" where
  "andThen m f = (case m of Inl e \<Rightarrow> Inl e | Inr x \<Rightarrow> f x)"

fun forEach :: "('a \<Rightarrow> panic + 'b) \<Rightarrow> 'a list \<Rightarrow> panic + 'b list" where
  "forEach f [] = Inr []"
| "forEach f (x # xs) =
     andThen (f x) (\<lambda>y. andThen (forEach f xs) (\<lambda>ys. Inr (y # ys)))"


section \<open>Data shared by the two decoders\<close>

text \<open>
  The repository holds two decoders of the same wire format: \<open>message.go\<close>
  (\<open>parseMessage\<close> and the \<open>parseXXXMessage\<close> methods of \<open>message\<close>) and the
  dispatch-table decoder (\<open>ParseMessage\<close>).  Both declare \<open>MessageType\<close> as an
  \<open>int\<close> with the same values for the kinds they share, and the same \<open>Emote\<close>.
  Where the two files use one name for different functions, the one of \<open>message.go\<close>
  carries the suffix \<open>_v1\<close>.
\<close>

type_synonym MessageType = int

definition UNSET :: MessageType where "UNSET = - 1"
definition WHISPER :: MessageType where "WHISPER = 0"
definition PRIVMSG :: MessageType where "PRIVMSG = 1"
definition CLEARCHAT :: MessageType where "CLEARCHAT = 2"
definition ROOMSTATE :: MessageType where "ROOMSTATE = 3"
definition USERNOTICE :: MessageType where "USERNOTICE = 4"
definition USERSTATE :: MessageType where "USERSTATE = 5"
definition NOTICE :: MessageType where "NOTICE = 6"
definition JOIN :: MessageType where "JOIN = 7"
definition PART :: MessageType where "PART = 8"
definition RECONNECT :: MessageType where "RECONNECT = 9"
definition NAMES :: MessageType where "NAMES = 10"
definition PING :: MessageType where "PING = 11"
definition PONG :: MessageType where "PONG = 12"

lemmas MessageType_defs =
  UNSET_def WHISPER_def PRIVMSG_def CLEARCHAT_def ROOMSTATE_def USERNOTICE_def USERSTATE_def
  NOTICE_def JOIN_def PART_def RECONNECT_def NAMES_def PING_def PONG_def

type_synonym Tags = "string \<rightharpoonup> string"

text \<open>Reading a Go map at a missing key gives the zero value, the empty string.\<close>

definition tag :: "Tags \<Rightarrow> string \<Rightarrow> string" where
  "tag tags k = (case tags k of None \<Rightarrow> [] | Some v \<Rightarrow> v)"

record Emote =
  Name :: string
  ID :: string
  Count :: int

record User =
  UserID :: string
  UserName :: string
  DisplayName :: string
  Color :: string
  Badges :: "string \<rightharpoonup> int"

text \<open>A \<open>time.Time\<close> is \<open>None\<close> for the zero value and \<open>Some n\<close> for
  \<open>time.Unix(0, n)\<close>; the product with \<open>1e6\<close> wraps as an \<open>int64\<close>.\<close>

definition wrap64 :: "int \<Rightarrow> int" where
  "wrap64 n = (n + 2 ^ 63) mod 2 ^ 64 - 2 ^ 63"

section \<open>message.go\<close>

record RawMessage =
  Type :: MessageType
  RawType :: string
  Raw :: string
  Tags :: Tags
  Message :: string

record message =
  msgRawMessage :: RawMessage
  msgChannel :: string
  msgUsername :: string

text \<open>\<open>parseMiddle\<close>: the loop over the (at most three) tokens, each assignment
  overwriting the one before.\<close>

fun parseMiddleLoop ::
  "nat \<Rightarrow> string list \<Rightarrow> string \<times> string \<times> string \<Rightarrow> panic + string \<times> string \<times> string" where
  "parseMiddleLoop i [] acc = Inr acc"
| "parseMiddleLoop i (v # vs) (rawType, channel, username) =
     (if i = 1 then parseMiddleLoop (Suc i) vs (v, channel, username)
      else if Contains v ''!'' then
        andThen (at (SplitN v ''!'' 2) 0)
          (\<lambda>u. parseMiddleLoop (Suc i) vs (rawType, channel, u))
      else if Contains v ''#'' then
        parseMiddleLoop (Suc i) vs (rawType, TrimPrefix v ''#'', username)
      else parseMiddleLoop (Suc i) vs (rawType, channel, username))"

definition parseMiddle :: "string \<Rightarrow> panic + string \<times> string \<times> string" where
  "parseMiddle middle = parseMiddleLoop 0 (SplitN middle '' '' 3) ([], [], [])"

definition parseMessageType_v1 :: "string \<Rightarrow> MessageType" where
  "parseMessageType_v1 messageType =
     (if messageType = ''PRIVMSG'' then PRIVMSG
      else if messageType = ''WHISPER'' then WHISPER
      else if messageType = ''CLEARCHAT'' then CLEARCHAT
      else if messageType = ''NOTICE'' then NOTICE
      else if messageType = ''ROOMSTATE'' then ROOMSTATE
      else if messageType = ''USERSTATE'' then USERSTATE
      else if messageType = ''USERNOTICE'' then USERNOTICE
      else UNSET)"

text \<open>\<open>parseTags\<close>.  \<open>tag[0]\<close> is read last in the source, after the value.\<close>

definition parseTag :: "Tags \<Rightarrow> string \<Rightarrow> panic + Tags" where
  "parseTag tags v =
     (let t = SplitN v ''='' 2
      in andThen (if length t > 1 then at t 1 else Inr [])
           (\<lambda>val. andThen (at t 0) (\<lambda>k. Inr (tags(k \<mapsto> val)))))"

fun parseTagsLoop :: "Tags \<Rightarrow> string list \<Rightarrow> panic + Tags" where
  "parseTagsLoop tags [] = Inr tags"
| "parseTagsLoop tags (v # vs) = andThen (parseTag tags v) (\<lambda>tags'. parseTagsLoop tags' vs)"

definition parseTags :: "string \<Rightarrow> panic + Tags" where
  "parseTags tagsRaw = parseTagsLoop Map.empty (Split (TrimPrefix tagsRaw ''@'') '';'')"

text \<open>The padding loop of \<open>parseMessage\<close>,
  \<open>for i := 0; i < 3-len(split); i++ { split = append(split, "") }\<close>:
  its bound is read again at every round, after the slice has grown.\<close>

function padSplit :: "nat \<Rightarrow> string list \<Rightarrow> string list" where
  "padSplit i split =
     (if int i < 3 - int (length split) then padSplit (Suc i) (split @ [[]]) else split)"
  by pat_completeness auto
termination
  by (relation "measure (\<lambda>(i, split). 3 - length split)") auto

declare padSplit.simps [simp del]

definition parseMessage :: "string \<Rightarrow> panic + message" where
  "parseMessage line =
     (if \<not> HasPrefix line ''@'' then
        Inr \<lparr>msgRawMessage = \<lparr>Type = UNSET, RawType = [], Raw = line, Tags = Map.empty,
                               Message = line\<rparr>,
             msgChannel = [], msgUsername = []\<rparr>
      else
        let split0 = SplitN line '' :'' 3;
            split = (if length split0 < 3 then padSplit 0 split0 else split0)
        in andThen (at split 1) (\<lambda>middle.
           andThen (parseMiddle middle) (\<lambda>(rawType, channel, username).
           andThen (at split 0) (\<lambda>tagsRaw.
           andThen (parseTags tagsRaw) (\<lambda>tags.
           andThen (at split 2) (\<lambda>text.
             Inr \<lparr>msgRawMessage = \<lparr>Type = parseMessageType_v1 rawType, RawType = rawType,
                                    Raw = line, Tags = tags, Message = text\<rparr>,
                  msgChannel = channel, msgUsername = username\<rparr>))))))"


record channelMessage =
  cmRawMessage :: RawMessage
  Channel :: string

record roomMessage =
  rmChannelMessage :: channelMessage
  RoomID :: string

record chatMessage =
  chRoomMessage :: roomMessage
  ChatID :: string
  Time :: "int option"

record userMessage =
  Action :: bool
  Emotes :: "Emote list"

record PRIVMSGMessage =
  pmChatMessage :: chatMessage
  pmUserMessage :: userMessage
  Bits :: int

record WHISPERMessage =
  wmRawMessage :: RawMessage
  wmUserMessage :: userMessage

datatype paramValue = PString string | PInt int | PBool bool

record USERNOTICEMessage =
  unChatMessage :: chatMessage
  unUserMessage :: userMessage
  MsgID :: string
  MsgParams :: "string \<rightharpoonup> paramValue"
  SystemMsg :: string

definition parseChannelMessage :: "message \<Rightarrow> channelMessage" where
  "parseChannelMessage m = \<lparr>cmRawMessage = msgRawMessage m, Channel = msgChannel m\<rparr>"

definition parseRoomMessage :: "message \<Rightarrow> roomMessage" where
  "parseRoomMessage m =
     \<lparr>rmChannelMessage = parseChannelMessage m, RoomID = tag (Tags (msgRawMessage m)) ''room-id''\<rparr>"

definition parseChatMessage :: "message \<Rightarrow> chatMessage" where
  "parseChatMessage m =
     (let (i, err) = ParseInt (tag (Tags (msgRawMessage m)) ''tmi-sent-ts'')
      in \<lparr>chRoomMessage = parseRoomMessage m, ChatID = tag (Tags (msgRawMessage m)) ''id'',
          Time = (if err \<noteq> None then None else Some (wrap64 (i * 1000000)))\<rparr>)"

text \<open>\<open>parseEmotes\<close> of \<open>message.go\<close>: the name is \<open>runes[firstIndex:lastIndex]\<close>.\<close>

definition parseEmote_v1 :: "goRuntime \<Rightarrow> rune list \<Rightarrow> string \<Rightarrow> panic + Emote" where
  "parseEmote_v1 rt rs v =
     (let split = SplitN v '':'' 2
      in andThen (at split 1) (\<lambda>s1.
         andThen (at (SplitN s1 '','' 2) 0) (\<lambda>pos0.
         let indexPair = SplitN pos0 ''-'' 2
         in andThen (at indexPair 0) (\<lambda>ip0.
            andThen (at indexPair 1) (\<lambda>ip1.
            andThen (sliceRunes rt rs (Atoi ip0) (Atoi ip1)) (\<lambda>name.
            andThen (at split 0) (\<lambda>eid.
              Inr \<lparr>Name = stringOfRunes name, ID = eid, Count = int (strCount s1 '','') + 1\<rparr>)))))))"

definition parseEmotes_v1 :: "goRuntime \<Rightarrow> message \<Rightarrow> panic + Emote list" where
  "parseEmotes_v1 rt m =
     (let rawEmotes = tag (Tags (msgRawMessage m)) ''emotes''
      in if rawEmotes = [] then Inr []
         else forEach (parseEmote_v1 rt (runes (Message (msgRawMessage m)))) (Split rawEmotes ''/''))"

definition actionPrefix :: string where
  "actionPrefix = CHR 0x01 # ''ACTION''"

definition actionSuffix :: string where
  "actionSuffix = [CHR 0x01]"

definition parseUserMessage :: "goRuntime \<Rightarrow> message \<Rightarrow> panic + userMessage" where
  "parseUserMessage rt m =
     andThen (parseEmotes_v1 rt m) (\<lambda>emotes.
       let text = Message (msgRawMessage m)
       in Inr \<lparr>Action = (HasPrefix text actionPrefix \<and> HasSuffix text actionSuffix),
               Emotes = emotes\<rparr>)"

definition parseBadge_v1 :: "(string \<rightharpoonup> int) \<Rightarrow> string \<Rightarrow> panic + (string \<rightharpoonup> int)" where
  "parseBadge_v1 badges v =
     (let badge = SplitN v ''/'' 2
      in if length badge < 2 then Inr badges
         else andThen (at badge 1) (\<lambda>lvl. andThen (at badge 0) (\<lambda>k. Inr (badges(k \<mapsto> Atoi lvl)))))"

fun parseBadgesLoop_v1 :: "(string \<rightharpoonup> int) \<Rightarrow> string list \<Rightarrow> panic + (string \<rightharpoonup> int)" where
  "parseBadgesLoop_v1 badges [] = Inr badges"
| "parseBadgesLoop_v1 badges (v # vs) =
     andThen (parseBadge_v1 badges v) (\<lambda>badges'. parseBadgesLoop_v1 badges' vs)"

definition parseBadges_v1 :: "message \<Rightarrow> panic + (string \<rightharpoonup> int)" where
  "parseBadges_v1 m =
     (case Tags (msgRawMessage m) ''badges'' of
        None \<Rightarrow> Inr Map.empty
      | Some rawBadges \<Rightarrow> parseBadgesLoop_v1 Map.empty (Split rawBadges '',''))"

definition parseUser_v1 :: "goRuntime \<Rightarrow> message \<Rightarrow> panic + User" where
  "parseUser_v1 rt m =
     andThen (parseBadges_v1 m) (\<lambda>badges.
       let tags = Tags (msgRawMessage m);
           user = \<lparr>UserID = tag tags ''user-id'', UserName = msgUsername m,
                   DisplayName = tag tags ''display-name'', Color = tag tags ''color'',
                   Badges = badges\<rparr>
       in Inr (if UserName user = [] then user\<lparr>UserName := ToLower rt (DisplayName user)\<rparr>
               else user))"

text \<open>\<open>privateMessage.Message[8 : len(privateMessage.Message)-1]\<close>.\<close>

definition stripAction :: "string \<Rightarrow> panic + string" where
  "stripAction text = slice text 8 (int (length text) - 1)"

definition setChatText :: "chatMessage \<Rightarrow> string \<Rightarrow> chatMessage" where
  "setChatText c text =
     c\<lparr>chRoomMessage := (chRoomMessage c)\<lparr>rmChannelMessage :=
          (rmChannelMessage (chRoomMessage c))\<lparr>cmRawMessage :=
             (cmRawMessage (rmChannelMessage (chRoomMessage c)))\<lparr>Message := text\<rparr>\<rparr>\<rparr>\<rparr>"

definition chatText :: "chatMessage \<Rightarrow> string" where
  "chatText c = Message (cmRawMessage (rmChannelMessage (chRoomMessage c)))"

definition parsePRIVMSGMessage :: "goRuntime \<Rightarrow> message \<Rightarrow> panic + User \<times> PRIVMSGMessage" where
  "parsePRIVMSGMessage rt m =
     andThen (parseUserMessage rt m) (\<lambda>um.
       let chat = parseChatMessage m
       in andThen (if Action um then andThen (stripAction (chatText chat)) (\<lambda>t. Inr (setChatText chat t))
                   else Inr chat) (\<lambda>chat'.
          let bits = (case Tags (msgRawMessage m) ''bits'' of None \<Rightarrow> 0 | Some rawBits \<Rightarrow> Atoi rawBits)
          in andThen (parseUser_v1 rt m) (\<lambda>user.
               Inr (user, \<lparr>pmChatMessage = chat', pmUserMessage = um, Bits = bits\<rparr>))))"

definition parseWHISPERMessage :: "goRuntime \<Rightarrow> message \<Rightarrow> panic + User \<times> WHISPERMessage" where
  "parseWHISPERMessage rt m =
     andThen (parseUserMessage rt m) (\<lambda>um.
       let raw = msgRawMessage m
       in andThen (if Action um then andThen (stripAction (Message raw)) (\<lambda>t. Inr (raw\<lparr>Message := t\<rparr>))
                   else Inr raw) (\<lambda>raw'.
          andThen (parseUser_v1 rt m) (\<lambda>user.
            Inr (user, \<lparr>wmRawMessage = raw', wmUserMessage = um\<rparr>))))"


text \<open>The escapes \<open>"\\s"\<close> and \<open>"\\n"\<close> of the source: a backslash and a letter.\<close>

definition escS :: string where
  "escS = [CHR 0x5C, CHR ''s'']"

definition escN :: string where
  "escN = [CHR 0x5C, CHR ''n'']"

text \<open>\<open>parseMsgParams\<close>.  The loop over the tags writes each key once, so the bag it
  leaves is given key by key.  \<open>rawValue.(string)\<close> panics on a value that is no string.\<close>

definition copyMsgParams :: "Tags \<Rightarrow> (string \<rightharpoonup> paramValue)" where
  "copyMsgParams tags k =
     (case tags k of
        None \<Rightarrow> None
      | Some v \<Rightarrow> if Contains k ''msg-param'' then Some (PString (ReplaceAll v escS '' '')) else None)"

definition paramToBool ::
  "(string \<rightharpoonup> paramValue) \<Rightarrow> string \<Rightarrow> panic + (string \<rightharpoonup> paramValue)" where
  "paramToBool params k =
     (case params k of
        None \<Rightarrow> Inr params
      | Some (PString rawValue) \<Rightarrow> Inr (params(k \<mapsto> PBool (rawValue = ''1'')))
      | Some _ \<Rightarrow> Inl InterfaceConversion)"

definition paramToInt ::
  "(string \<rightharpoonup> paramValue) \<Rightarrow> string \<Rightarrow> panic + (string \<rightharpoonup> paramValue)" where
  "paramToInt params k =
     (case params k of
        None \<Rightarrow> Inr params
      | Some (PString rawValue) \<Rightarrow> Inr (params(k \<mapsto> PInt (Atoi rawValue)))
      | Some _ \<Rightarrow> Inl InterfaceConversion)"

definition parseMsgParams :: "Tags \<Rightarrow> panic + (string \<rightharpoonup> paramValue)" where
  "parseMsgParams tags =
     andThen (paramToInt (copyMsgParams tags) ''msg-param-cumulative-months'') (\<lambda>p1.
     andThen (paramToInt p1 ''msg-param-months'') (\<lambda>p2.
     andThen (paramToBool p2 ''msg-param-should-share-streak'') (\<lambda>p3.
     andThen (paramToInt p3 ''msg-param-streak-months'') (\<lambda>p4.
     paramToInt p4 ''msg-param-viewerCount''))))"

definition parseUSERNOTICEMessage :: "goRuntime \<Rightarrow> message \<Rightarrow> panic + User \<times> USERNOTICEMessage" where
  "parseUSERNOTICEMessage rt m =
     andThen (parseUserMessage rt m) (\<lambda>um.
       let chat = parseChatMessage m;
           tags = Tags (cmRawMessage (rmChannelMessage (chRoomMessage chat)))
       in andThen (parseMsgParams tags) (\<lambda>params.
          let systemMsg = (case tags ''system-msg'' of
                             None \<Rightarrow> []
                           | Some raw \<Rightarrow> TrimSpace (ReplaceAll (ReplaceAll raw escS '' '') escN []))
          in andThen (parseUser_v1 rt m) (\<lambda>user.
               Inr (user, \<lparr>unChatMessage = chat, unUserMessage = um,
                           MsgID = tag (Tags (msgRawMessage m)) ''msg-id'',
                           MsgParams = params, SystemMsg = systemMsg\<rparr>))))"

definition parseNames :: "string \<Rightarrow> panic + string \<times> string list" where
  "parseNames text =
     (let lines = Split text '':''
      in andThen (at lines 1) (\<lambda>l1.
         andThen (at (Split l1 ''#'') 1) (\<lambda>c.
         andThen (at lines 2) (\<lambda>l2. Inr (TrimSpaces c, Split l2 '' '')))))"


section \<open>The dispatch-table decoder\<close>

text \<open>
  Modelled from the spec: the type \<open>ircMessage\<close> and the line framer
  \<open>parseIRCMessage\<close> are declared outside the files at hand.  The record holds the fields
  the decoders read (the spec's Framed Line: tags, source username, command, parameters,
  raw line); the framer is a parameter of \<open>ParseMessage\<close>, returning the framed line
  and whether it reported an error.
\<close>

record ircMessage =
  ircRaw :: string
  ircTags :: Tags
  SourceUsername :: string
  Command :: string
  Params :: "string list"

record WhisperMessage =
  wh_User :: User
  wh_Raw :: string
  wh_Type :: MessageType
  wh_RawType :: string
  wh_Tags :: Tags
  wh_MessageID :: string
  wh_ThreadID :: string
  wh_Message :: string
  wh_Target :: string
  wh_Emotes :: "Emote list"
  wh_Action :: bool

record PrivateMessage =
  pm_User :: User
  pm_Raw :: string
  pm_Type :: MessageType
  pm_RawType :: string
  pm_Tags :: Tags
  pm_RoomID :: string
  pm_ID :: string
  pm_Time :: "int option"
  pm_Message :: string
  pm_Channel :: string
  pm_Emotes :: "Emote list"
  pm_Bits :: int
  pm_Action :: bool

record ClearChatMessage =
  cc_Raw :: string
  cc_Type :: MessageType
  cc_RawType :: string
  cc_Tags :: Tags
  cc_RoomID :: string
  cc_Time :: "int option"
  cc_TargetUserID :: string
  cc_Channel :: string
  cc_BanDuration :: int
  cc_TargetUsername :: string

record RoomStateMessage =
  rs_Raw :: string
  rs_Type :: MessageType
  rs_RawType :: string
  rs_Tags :: Tags
  rs_RoomID :: string
  rs_State :: "string \<rightharpoonup> int"
  rs_Channel :: string

record UserNoticeMessage =
  un_User :: User
  un_Raw :: string
  un_Type :: MessageType
  un_RawType :: string
  un_Tags :: Tags
  un_RoomID :: string
  un_ID :: string
  un_Time :: "int option"
  un_MsgID :: string
  un_MsgParams :: "string \<rightharpoonup> string"
  un_SystemMsg :: string
  un_Message :: string
  un_Channel :: string
  un_Emotes :: "Emote list"

record UserStateMessage =
  us_User :: User
  us_Raw :: string
  us_Type :: MessageType
  us_RawType :: string
  us_Tags :: Tags
  us_Channel :: string
  us_EmoteSets :: "string list"

record NoticeMessage =
  no_Raw :: string
  no_Type :: MessageType
  no_RawType :: string
  no_Tags :: Tags
  no_MsgID :: string
  no_Message :: string
  no_Channel :: string

record UserJoinMessage =
  jn_Raw :: string
  jn_Type :: MessageType
  jn_RawType :: string
  jn_User :: string
  jn_Channel :: string

record UserPartMessage =
  pt_Raw :: string
  pt_Type :: MessageType
  pt_RawType :: string
  pt_User :: string
  pt_Channel :: string

record ReconnectMessage =
  rc_Raw :: string
  rc_Type :: MessageType
  rc_RawType :: string

record NamesMessage =
  nm_Raw :: string
  nm_Type :: MessageType
  nm_RawType :: string
  nm_Channel :: string
  nm_Users :: "string list"

record PingMessage =
  pi_Raw :: string
  pi_Type :: MessageType
  pi_RawType :: string
  pi_Message :: string

record PongMessage =
  po_Raw :: string
  po_Type :: MessageType
  po_RawType :: string
  po_Message :: string

text \<open>The interface \<open>Message\<close>: one of the record types, with its kind.\<close>

datatype Message =
    MRaw RawMessage
  | MWhisper WhisperMessage
  | MPrivate PrivateMessage
  | MClearChat ClearChatMessage
  | MRoomState RoomStateMessage
  | MUserNotice UserNoticeMessage
  | MUserState UserStateMessage
  | MNotice NoticeMessage
  | MUserJoin UserJoinMessage
  | MUserPart UserPartMessage
  | MReconnect ReconnectMessage
  | MNames NamesMessage
  | MPing PingMessage
  | MPong PongMessage


text \<open>The \<open>Type\<close> column of \<open>messageTypeMap\<close>, which \<open>parseMessageType\<close> reads; the
  table with its parsers follows the parsers.\<close>

definition messageTypeMapType :: "string \<rightharpoonup> MessageType" where
  "messageTypeMapType =
     [''WHISPER'' \<mapsto> WHISPER, ''PRIVMSG'' \<mapsto> PRIVMSG, ''CLEARCHAT'' \<mapsto> CLEARCHAT,
      ''ROOMSTATE'' \<mapsto> ROOMSTATE, ''USERNOTICE'' \<mapsto> USERNOTICE, ''USERSTATE'' \<mapsto> USERSTATE,
      ''NOTICE'' \<mapsto> NOTICE, ''JOIN'' \<mapsto> JOIN, ''PART'' \<mapsto> PART, ''RECONNECT'' \<mapsto> RECONNECT,
      ''353'' \<mapsto> NAMES, ''PING'' \<mapsto> PING, ''PONG'' \<mapsto> PONG]"

definition parseMessageType :: "string \<Rightarrow> MessageType" where
  "parseMessageType messageType =
     (case messageTypeMapType messageType of Some mt \<Rightarrow> mt | None \<Rightarrow> UNSET)"

definition parseBadge :: "(string \<rightharpoonup> int) \<Rightarrow> string \<Rightarrow> panic + (string \<rightharpoonup> int)" where
  "parseBadge badges badge =
     (let pair = SplitN badge ''/'' 2
      in andThen (at pair 1) (\<lambda>lvl. andThen (at pair 0) (\<lambda>k. Inr (badges(k \<mapsto> Atoi lvl)))))"

fun parseBadgesLoop :: "(string \<rightharpoonup> int) \<Rightarrow> string list \<Rightarrow> panic + (string \<rightharpoonup> int)" where
  "parseBadgesLoop badges [] = Inr badges"
| "parseBadgesLoop badges (v # vs) =
     andThen (parseBadge badges v) (\<lambda>badges'. parseBadgesLoop badges' vs)"

definition parseBadges :: "string \<Rightarrow> panic + (string \<rightharpoonup> int)" where
  "parseBadges rawBadges = parseBadgesLoop Map.empty (Split rawBadges '','')"

text \<open>\<open>strings.Replace(s, " ", "", 1)\<close>: the first space is removed.\<close>

definition removeFirstSpace :: "string \<Rightarrow> string" where
  "removeFirstSpace s =
     (case Index s '' '' of None \<Rightarrow> s | Some i \<Rightarrow> take i s @ drop (Suc i) s)"

definition parseUser :: "goRuntime \<Rightarrow> ircMessage \<Rightarrow> panic + User" where
  "parseUser rt message =
     (let tags = ircTags message;
          rawBadges = tag tags ''badges''
      in andThen (if rawBadges \<noteq> [] then parseBadges rawBadges else Inr Map.empty) (\<lambda>badges.
         let user = \<lparr>UserID = tag tags ''user-id'', UserName = SourceUsername message,
                     DisplayName = tag tags ''display-name'', Color = tag tags ''color'',
                     Badges = badges\<rparr>
         in Inr (if UserName user = [] \<and> DisplayName user \<noteq> []
                 then user\<lparr>UserName := removeFirstSpace (ToLower rt (DisplayName user))\<rparr>
                 else user)))"

definition parseTime :: "string \<Rightarrow> int option" where
  "parseTime rawTime =
     (if rawTime = [] then None else Some (wrap64 (fst (ParseInt rawTime) * 1000000)))"

text \<open>\<open>parseEmotes\<close>: the name is \<open>runes[firstIndex : lastIndex+1]\<close>.\<close>

definition parseEmote :: "goRuntime \<Rightarrow> rune list \<Rightarrow> string \<Rightarrow> panic + Emote" where
  "parseEmote rt rs v =
     (let split = SplitN v '':'' 2
      in andThen (at split 1) (\<lambda>s1.
         andThen (at (SplitN s1 '','' 2) 0) (\<lambda>pairs0.
         let pair = SplitN pairs0 ''-'' 2
         in andThen (at pair 0) (\<lambda>p0.
            andThen (at pair 1) (\<lambda>p1.
            andThen (sliceRunes rt rs (Atoi p0) (wrap64 (Atoi p1 + 1))) (\<lambda>name.
            andThen (at split 0) (\<lambda>eid.
              Inr \<lparr>Name = stringOfRunes name, ID = eid, Count = int (strCount s1 '','') + 1\<rparr>)))))))"

definition parseEmotes :: "goRuntime \<Rightarrow> string \<Rightarrow> string \<Rightarrow> panic + Emote list" where
  "parseEmotes rt rawEmotes message =
     (if rawEmotes = [] then Inr []
      else forEach (parseEmote rt (runes message)) (Split rawEmotes ''/''))"


definition parseRawMessage :: "ircMessage \<Rightarrow> RawMessage" where
  "parseRawMessage message =
     \<lparr>Type = parseMessageType (Command message), RawType = Command message, Raw = ircRaw message,
      Tags = ircTags message,
      Message = (case dropWhile (\<lambda>v. Contains v ''#'') (Params message) of
                   [] \<Rightarrow> []
                 | v # vs \<Rightarrow> Join (v # vs) '' '')\<rparr>"

text \<open>\<open>if len(message.Params) == 2 { ... = message.Params[1] }\<close>.\<close>

definition secondOfTwo :: "string list \<Rightarrow> panic + string" where
  "secondOfTwo ps = (if length ps = 2 then at ps 1 else Inr [])"

definition parseWhisperMessage :: "goRuntime \<Rightarrow> ircMessage \<Rightarrow> panic + Message" where
  "parseWhisperMessage rt message =
     andThen (parseUser rt message) (\<lambda>user.
     andThen (secondOfTwo (Params message)) (\<lambda>text.
     andThen (at (Params message) 0) (\<lambda>target.
     andThen (parseEmotes rt (tag (ircTags message) ''emotes'') text) (\<lambda>emotes.
       Inr (MWhisper
         \<lparr>wh_User = user, wh_Raw = ircRaw message, wh_Type = parseMessageType (Command message),
          wh_RawType = Command message, wh_Tags = ircTags message,
          wh_MessageID = tag (ircTags message) ''message-id'',
          wh_ThreadID = tag (ircTags message) ''thread-id'',
          wh_Message = (if Contains text ''/me'' then TrimPrefix text ''/me'' else text),
          wh_Target = target, wh_Emotes = emotes, wh_Action = Contains text ''/me''\<rparr>)))))"

definition parsePrivateMessage :: "goRuntime \<Rightarrow> ircMessage \<Rightarrow> panic + Message" where
  "parsePrivateMessage rt message =
     andThen (parseUser rt message) (\<lambda>user.
     andThen (secondOfTwo (Params message)) (\<lambda>text.
     andThen (at (Params message) 0) (\<lambda>p0.
     andThen (parseEmotes rt (tag (ircTags message) ''emotes'') text) (\<lambda>emotes.
     let bits = (case ircTags message ''bits'' of None \<Rightarrow> 0 | Some rawBits \<Rightarrow> Atoi rawBits);
         action = (HasPrefix text actionPrefix \<and> HasSuffix text actionSuffix)
     in andThen (if action then stripAction text else Inr text) (\<lambda>text'.
       Inr (MPrivate
         \<lparr>pm_User = user, pm_Raw = ircRaw message, pm_Type = parseMessageType (Command message),
          pm_RawType = Command message, pm_Tags = ircTags message,
          pm_RoomID = tag (ircTags message) ''room-id'', pm_ID = tag (ircTags message) ''id'',
          pm_Time = parseTime (tag (ircTags message) ''tmi-sent-ts''),
          pm_Message = text', pm_Channel = TrimPrefix p0 ''#'', pm_Emotes = emotes,
          pm_Bits = bits, pm_Action = action\<rparr>))))))"

definition parseClearChatMessage :: "ircMessage \<Rightarrow> panic + Message" where
  "parseClearChatMessage message =
     andThen (at (Params message) 0) (\<lambda>p0.
     andThen (secondOfTwo (Params message)) (\<lambda>target.
       Inr (MClearChat
         \<lparr>cc_Raw = ircRaw message, cc_Type = parseMessageType (Command message),
          cc_RawType = Command message, cc_Tags = ircTags message,
          cc_RoomID = tag (ircTags message) ''room-id'',
          cc_Time = parseTime (tag (ircTags message) ''tmi-sent-ts''),
          cc_TargetUserID = tag (ircTags message) ''target-user-id'',
          cc_Channel = TrimPrefix p0 ''#'',
          cc_BanDuration = (case ircTags message ''ban-duration'' of
                              None \<Rightarrow> 0 | Some rawBanDuration \<Rightarrow> Atoi rawBanDuration),
          cc_TargetUsername = target\<rparr>)))"

definition stateTags :: "string list" where
  "stateTags = [''emote-only'', ''followers-only'', ''r9k'', ''rituals'', ''slow'', ''subs-only'']"

definition parseRoomStateMessage :: "ircMessage \<Rightarrow> panic + Message" where
  "parseRoomStateMessage message =
     andThen (at (Params message) 0) (\<lambda>p0.
       Inr (MRoomState
         \<lparr>rs_Raw = ircRaw message, rs_Type = parseMessageType (Command message),
          rs_RawType = Command message, rs_Tags = ircTags message,
          rs_RoomID = tag (ircTags message) ''room-id'',
          rs_State = foldl (\<lambda>st t. case ircTags message t of
                                      None \<Rightarrow> st | Some rawValue \<Rightarrow> st(t \<mapsto> Atoi rawValue))
                       Map.empty stateTags,
          rs_Channel = TrimPrefix p0 ''#''\<rparr>))"

text \<open>The loop over the tags of \<open>parseUserNoticeMessage\<close> writes each key once; the bag
  is given key by key.\<close>

definition parseUserNoticeMessage :: "goRuntime \<Rightarrow> ircMessage \<Rightarrow> panic + Message" where
  "parseUserNoticeMessage rt message =
     andThen (parseUser rt message) (\<lambda>user.
     andThen (secondOfTwo (Params message)) (\<lambda>text.
     andThen (at (Params message) 0) (\<lambda>p0.
     andThen (parseEmotes rt (tag (ircTags message) ''emotes'') text) (\<lambda>emotes.
       Inr (MUserNotice
         \<lparr>un_User = user, un_Raw = ircRaw message, un_Type = parseMessageType (Command message),
          un_RawType = Command message, un_Tags = ircTags message,
          un_RoomID = tag (ircTags message) ''room-id'', un_ID = tag (ircTags message) ''id'',
          un_Time = parseTime (tag (ircTags message) ''tmi-sent-ts''),
          un_MsgID = tag (ircTags message) ''msg-id'',
          un_MsgParams = (\<lambda>k. case ircTags message k of
                                 None \<Rightarrow> None
                               | Some v \<Rightarrow> if Contains k ''msg-param'' then Some v else None),
          un_SystemMsg = tag (ircTags message) ''system-msg'',
          un_Message = text, un_Channel = TrimPrefix p0 ''#'', un_Emotes = emotes\<rparr>)))))"

definition parseUserStateMessage :: "goRuntime \<Rightarrow> ircMessage \<Rightarrow> panic + Message" where
  "parseUserStateMessage rt message =
     andThen (parseUser rt message) (\<lambda>user.
     andThen (at (Params message) 0) (\<lambda>p0.
       Inr (MUserState
         \<lparr>us_User = user, us_Raw = ircRaw message, us_Type = parseMessageType (Command message),
          us_RawType = Command message, us_Tags = ircTags message,
          us_Channel = TrimPrefix p0 ''#'',
          us_EmoteSets = (case ircTags message ''emote-sets'' of
                            None \<Rightarrow> [] | Some rawEmoteSets \<Rightarrow> Split rawEmoteSets '','')\<rparr>)))"

definition parseNoticeMessage :: "ircMessage \<Rightarrow> panic + Message" where
  "parseNoticeMessage message =
     andThen (secondOfTwo (Params message)) (\<lambda>text.
     andThen (at (Params message) 0) (\<lambda>p0.
       Inr (MNotice
         \<lparr>no_Raw = ircRaw message, no_Type = parseMessageType (Command message),
          no_RawType = Command message, no_Tags = ircTags message,
          no_MsgID = tag (ircTags message) ''msg-id'', no_Message = text,
          no_Channel = TrimPrefix p0 ''#''\<rparr>)))"

definition onlyParam :: "string list \<Rightarrow> panic + string" where
  "onlyParam ps = (if length ps = 1 then andThen (at ps 0) (\<lambda>p. Inr (TrimPrefix p ''#'')) else Inr [])"

definition parseUserJoinMessage :: "ircMessage \<Rightarrow> panic + Message" where
  "parseUserJoinMessage message =
     andThen (onlyParam (Params message)) (\<lambda>channel.
       Inr (MUserJoin
         \<lparr>jn_Raw = ircRaw message, jn_Type = parseMessageType (Command message),
          jn_RawType = Command message, jn_User = SourceUsername message, jn_Channel = channel\<rparr>))"

definition parseUserPartMessage :: "ircMessage \<Rightarrow> panic + Message" where
  "parseUserPartMessage message =
     andThen (onlyParam (Params message)) (\<lambda>channel.
       Inr (MUserPart
         \<lparr>pt_Raw = ircRaw message, pt_Type = parseMessageType (Command message),
          pt_RawType = Command message, pt_User = SourceUsername message, pt_Channel = channel\<rparr>))"

definition parseReconnectMessage :: "ircMessage \<Rightarrow> panic + Message" where
  "parseReconnectMessage message =
     Inr (MReconnect \<lparr>rc_Raw = ircRaw message, rc_Type = parseMessageType (Command message),
                      rc_RawType = Command message\<rparr>)"

definition parseNamesMessage :: "ircMessage \<Rightarrow> panic + Message" where
  "parseNamesMessage message =
     andThen (if length (Params message) = 4
              then andThen (at (Params message) 2) (\<lambda>p2.
                   andThen (at (Params message) 3) (\<lambda>p3.
                     Inr (TrimPrefix p2 ''#'', Split p3 '' '')))
              else Inr ([], [])) (\<lambda>(channel, users).
       Inr (MNames \<lparr>nm_Raw = ircRaw message, nm_Type = parseMessageType (Command message),
                    nm_RawType = Command message, nm_Channel = channel, nm_Users = users\<rparr>))"

definition parsePingMessage :: "ircMessage \<Rightarrow> panic + Message" where
  "parsePingMessage message =
     andThen (if length (Params message) = 1
              then andThen (at (Params message) 0) (\<lambda>p. at (Split p '' '') 0)
              else Inr []) (\<lambda>text.
       Inr (MPing \<lparr>pi_Raw = ircRaw message, pi_Type = parseMessageType (Command message),
                   pi_RawType = Command message, pi_Message = text\<rparr>))"

definition parsePongMessage :: "ircMessage \<Rightarrow> panic + Message" where
  "parsePongMessage message =
     andThen (if length (Params message) = 2
              then andThen (at (Params message) 1) (\<lambda>p. at (Split p '' '') 0)
              else Inr []) (\<lambda>text.
       Inr (MPong \<lparr>po_Raw = ircRaw message, po_Type = parseMessageType (Command message),
                   po_RawType = Command message, po_Message = text\<rparr>))"

text \<open>\<open>messageTypeMap\<close>, as \<open>init\<close> fills it.\<close>

definition messageTypeMap :: "goRuntime \<Rightarrow> string \<rightharpoonup> MessageType \<times> (ircMessage \<Rightarrow> panic + Message)" where
  "messageTypeMap rt =
     [''WHISPER'' \<mapsto> (WHISPER, parseWhisperMessage rt),
      ''PRIVMSG'' \<mapsto> (PRIVMSG, parsePrivateMessage rt),
      ''CLEARCHAT'' \<mapsto> (CLEARCHAT, parseClearChatMessage),
      ''ROOMSTATE'' \<mapsto> (ROOMSTATE, parseRoomStateMessage),
      ''USERNOTICE'' \<mapsto> (USERNOTICE, parseUserNoticeMessage rt),
      ''USERSTATE'' \<mapsto> (USERSTATE, parseUserStateMessage rt),
      ''NOTICE'' \<mapsto> (NOTICE, parseNoticeMessage),
      ''JOIN'' \<mapsto> (JOIN, parseUserJoinMessage),
      ''PART'' \<mapsto> (PART, parseUserPartMessage),
      ''RECONNECT'' \<mapsto> (RECONNECT, parseReconnectMessage),
      ''353'' \<mapsto> (NAMES, parseNamesMessage),
      ''PING'' \<mapsto> (PING, parsePingMessage),
      ''PONG'' \<mapsto> (PONG, parsePongMessage)]"

definition ParseMessage :: "goRuntime \<Rightarrow> (string \<Rightarrow> ircMessage \<times> bool) \<Rightarrow> string \<Rightarrow> panic + Message" where
  "ParseMessage rt parseIRCMessage line =
     (let (ircMessage, err) = parseIRCMessage line
      in if err then Inr (MRaw (parseRawMessage ircMessage))
         else (case messageTypeMap rt (Command ircMessage) of
                 Some (mt, parser) \<Rightarrow> parser ircMessage
               | None \<Rightarrow> Inr (MRaw (parseRawMessage ircMessage))))"


section \<open>What the decoders are compared with\<close>

text \<open>An entry \<open>name=value\<close> of a tag block, cut at its first \<open>=\<close>; an entry without
  \<open>=\<close> has the empty value.\<close>

definition tagKey :: "string \<Rightarrow> string" where
  "tagKey e = takeWhile (\<lambda>x. x \<noteq> CHR ''='') e"

definition tagValue :: "string \<Rightarrow> string" where
  "tagValue e = (if CHR ''='' \<in> set e then tl (dropWhile (\<lambda>x. x \<noteq> CHR ''='') e) else [])"

text \<open>The keys of the parameter bag that the claim lists as integers.\<close>

definition intParams :: "string set" where
  "intParams = {''msg-param-cumulative-months'', ''msg-param-months'',
                ''msg-param-streak-months'', ''msg-param-viewerCount''}"

text \<open>The body of a framed line (the second of exactly two parameters), the shape of an
  action body, and an action body without its first eight bytes and its last byte.\<close>

definition body :: "ircMessage \<Rightarrow> string" where
  "body message = (if length (Params message) = 2 then Params message ! 1 else [])"

definition actionShaped :: "string \<Rightarrow> bool" where
  "actionShaped text = (HasPrefix text actionPrefix \<and> HasSuffix text actionSuffix)"

definition actionBody :: "string \<Rightarrow> string" where
  "actionBody text = take (length text - 9) (drop 8 text)"

text \<open>An emote group \<open>emoteID:first-last,first-last,...\<close> in the words of the spec: its
  identifier, its list of ranges, the first range and its two offsets; a group is well
  formed for a body of \<open>n\<close> code points (fewer than \<open>2^63\<close>, as the length of a Go
  slice is) when it has a \<open>:\<close>, its first range has a \<open>-\<close> and the offsets \<open>first\<close>
  to \<open>last\<close> (both included) lie inside the body.  The emote of a group has the text of
  these code points as its name and one more than the number of commas of the range list as
  its count.\<close>

definition groupID :: "string \<Rightarrow> string" where
  "groupID v = takeWhile (\<lambda>x. x \<noteq> CHR '':'') v"

definition groupRanges :: "string \<Rightarrow> string" where
  "groupRanges v = tl (dropWhile (\<lambda>x. x \<noteq> CHR '':'') v)"

definition firstRange :: "string \<Rightarrow> string" where
  "firstRange v = takeWhile (\<lambda>x. x \<noteq> CHR '','') (groupRanges v)"

definition rangeFirst :: "string \<Rightarrow> int" where
  "rangeFirst r = Atoi (takeWhile (\<lambda>x. x \<noteq> CHR ''-'') r)"

definition rangeLast :: "string \<Rightarrow> int" where
  "rangeLast r = Atoi (tl (dropWhile (\<lambda>x. x \<noteq> CHR ''-'') r))"

definition wellFormedGroup :: "nat \<Rightarrow> string \<Rightarrow> bool" where
  "wellFormedGroup n v =
     (CHR '':'' \<in> set v \<and> CHR ''-'' \<in> set (firstRange v)
      \<and> 0 \<le> rangeFirst (firstRange v) \<and> rangeFirst (firstRange v) \<le> rangeLast (firstRange v) + 1
      \<and> rangeLast (firstRange v) + 1 \<le> int n \<and> int n < 2 ^ 63)"

definition emoteOfGroup :: "rune list \<Rightarrow> string \<Rightarrow> Emote" where
  "emoteOfGroup rs v =
     \<lparr>Name = stringOfRunes (take (nat (rangeLast (firstRange v) + 1 - rangeFirst (firstRange v)))
                               (drop (nat (rangeFirst (firstRange v))) rs)),
      ID = groupID v,
      Count = 1 + int (count_list (groupRanges v) CHR '','')\<rparr>"


section \<open>Framed lines used as concrete inputs\<close>

text \<open>With the framer outside the files at hand, a concrete input of \<open>ParseMessage\<close> is
  a line together with the framed line a framer reports for it (the spec's Line Framer:
  tags, source username, command token, parameters with the trailing one last).\<close>

text \<open>Two run times for the concrete inputs: one that gives a rune slice no spare room,
  and one that gives it room for 32 runes.  Their \<open>toLowerRune\<close> lowers the ASCII letters
  only; no concrete input below reaches it.\<close>

definition asciiLowerRune :: "rune \<Rightarrow> rune" where
  "asciiLowerRune r = (if 65 \<le> r \<and> r \<le> 90 then r + 32 else r)"

definition exactRt :: goRuntime where
  "exactRt = \<lparr>runeCap = (\<lambda>n. n), toLowerRune = asciiLowerRune\<rparr>"


definition framed :: "ircMessage \<Rightarrow> string \<Rightarrow> ircMessage \<times> bool" where
  "framed message line = (message\<lparr>ircRaw := line\<rparr>, False)"

definition pingLine :: ircMessage where
  "pingLine = \<lparr>ircRaw = [], ircTags = Map.empty, SourceUsername = [], Command = ''PING'',
               Params = [''tmi.twitch.tv'']\<rparr>"


definition shortNamesLine :: ircMessage where
  "shortNamesLine = \<lparr>ircRaw = [], ircTags = Map.empty, SourceUsername = [], Command = ''353'',
                     Params = [''justinfan123'', ''='']\<rparr>"

definition badBadgesLine :: ircMessage where
  "badBadgesLine = \<lparr>ircRaw = [], ircTags = [''badges'' \<mapsto> ''broadcaster''],
                    SourceUsername = ''u'', Command = ''PRIVMSG'', Params = [''#c'', ''hi'']\<rparr>"

text \<open>An action body with an emote in it, as a framed \<open>PRIVMSG\<close> and as a \<open>message\<close>
  of \<open>message.go\<close> (whose emote ranges end one past the last code point); an action body
  in a framed \<open>WHISPER\<close>; and a \<open>USERNOTICE\<close> with parameters of the three kinds.\<close>

definition kappaAction :: string where
  "kappaAction = actionPrefix @ '' Kappa'' @ actionSuffix"

definition actionLine :: ircMessage where
  "actionLine = \<lparr>ircRaw = [], ircTags = [''emotes'' \<mapsto> ''25:8-12''], SourceUsername = ''u'',
                 Command = ''PRIVMSG'', Params = [''#c'', kappaAction]\<rparr>"

definition hiAction :: string where
  "hiAction = actionPrefix @ '' hi'' @ actionSuffix"

definition whisperActionLine :: ircMessage where
  "whisperActionLine = \<lparr>ircRaw = [], ircTags = Map.empty, SourceUsername = ''u'',
                        Command = ''WHISPER'', Params = [''v'', hiAction]\<rparr>"

definition actionMessage :: message where
  "actionMessage =
     \<lparr>msgRawMessage = \<lparr>Type = PRIVMSG, RawType = ''PRIVMSG'', Raw = [],
                        Tags = [''emotes'' \<mapsto> ''25:8-13''],
                        Message = kappaAction\<rparr>,
      msgChannel = ''c'', msgUsername = ''u''\<rparr>"

definition planName :: string where
  "planName = ''Channel'' @ escS @ ''Sub''"

definition noticeMessage :: message where
  "noticeMessage =
     \<lparr>msgRawMessage = \<lparr>Type = USERNOTICE, RawType = ''USERNOTICE'', Raw = [],
                        Tags = [''msg-param-months'' \<mapsto> ''6'',
                                ''msg-param-should-share-streak'' \<mapsto> ''1'',
                                ''msg-param-sub-plan-name'' \<mapsto> planName,
                                ''msg-id'' \<mapsto> ''resub''],
                        Message = ''hi''\<rparr>,
      msgChannel = ''c'', msgUsername = ''u''\<rparr>"

text \<open>A framed \<open>PRIVMSG\<close> with the plain body \<open>hi\<close>.\<close>

definition plainLine :: ircMessage where
  "plainLine = \<lparr>ircRaw = [], ircTags = Map.empty, SourceUsername = ''u'', Command = ''PRIVMSG'',
                Params = [''#c'', ''hi'']\<rparr>"



text \<open>A framed \<open>USERNOTICE\<close> with one integer parameter.\<close>

definition monthsLine :: ircMessage where
  "monthsLine = \<lparr>ircRaw = [], ircTags = [''msg-param-months'' \<mapsto> ''6''], SourceUsername = ''u'',
                 Command = ''USERNOTICE'', Params = [''#c'']\<rparr>"

text \<open>A chat line \<open>Kappa Kappa\<close> whose \<open>emotes\<close> tag marks both words, as a
  \<open>message\<close> of \<open>message.go\<close>.\<close>

definition kappaMessage :: message where
  "kappaMessage =
     \<lparr>msgRawMessage = \<lparr>Type = PRIVMSG, RawType = ''PRIVMSG'', Raw = [],
                        Tags = [''emotes'' \<mapsto> ''25:0-4,6-10''], Message = ''Kappa Kappa''\<rparr>,
      msgChannel = ''c'', msgUsername = ''u''\<rparr>"

section \<open>Facts about the string functions\<close>

lemmas eval_defs = Split_def SplitN.simps strCount.simps ReplaceAll.simps padSplit.simps at_def
  slice_def andThen_def HasPrefix_def HasSuffix_def TrimPrefix_def Contains_def Atoi_def
  ParseInt_def isDigit_def digitsVal_def Let_def

lemma Index_single:
  "Index s [c] = (if c \<in> set s then Some (length (takeWhile (\<lambda>x. x \<noteq> c) s)) else None)"
  by (induction s) auto

lemma SplitN_nonempty: "n \<noteq> 0 \<Longrightarrow> SplitN s sep n \<noteq> []"
  by (subst SplitN.simps) (simp split: option.splits)

lemma takeWhile_absent: "c \<notin> set e \<Longrightarrow> takeWhile (\<lambda>x. x \<noteq> c) e = e"
  by (induction e) auto

lemma SplitN_two_single:
  "SplitN s [c] 2 =
     (if c \<in> set s then [takeWhile (\<lambda>x. x \<noteq> c) s, tl (dropWhile (\<lambda>x. x \<noteq> c) s)] else [s])"
proof -
  have one: "SplitN t [c] 1 = [t]" for t by (subst SplitN.simps) simp
  have "drop (Suc (length (takeWhile (\<lambda>x. x \<noteq> c) s))) s = tl (dropWhile (\<lambda>x. x \<noteq> c) s)"
    by (simp add: drop_Suc dropWhile_eq_drop tl_drop)
  moreover have "take (length (takeWhile (\<lambda>x. x \<noteq> c) s)) s = takeWhile (\<lambda>x. x \<noteq> c) s"
    by (simp add: takeWhile_eq_take [symmetric])
  ultimately show ?thesis
    by (subst SplitN.simps) (simp add: Index_single one)
qed

section \<open>The tag decoder of message.go\<close>

lemma parseTag_eq: "parseTag tags e = Inr (tags(tagKey e \<mapsto> tagValue e))"
  by (simp add: parseTag_def SplitN_two_single at_def andThen_def tagKey_def tagValue_def Let_def
      takeWhile_absent)

lemma parseTagsLoop_eq:
  "parseTagsLoop tags es = Inr (foldl (\<lambda>t e. t(tagKey e \<mapsto> tagValue e)) tags es)"
  by (induction es arbitrary: tags) (simp_all add: parseTag_eq andThen_def)

lemma foldl_upd_lookup:
  "foldl (\<lambda>t e. t(tagKey e \<mapsto> tagValue e)) tags es k =
     (case find (\<lambda>e. tagKey e = k) (rev es) of None \<Rightarrow> tags k | Some e \<Rightarrow> Some (tagValue e))"
  by (induction es rule: rev_induct) auto

text \<open>
  C3 (as the code has it).  \<open>parseTags\<close> never panics.  It strips the leading \<open>@\<close>,
  splits the block on \<open>;\<close> and each entry on its first \<open>=\<close>, and maps every name to the
  value of its last entry exactly as written (the empty value for an entry without
  \<open>=\<close>): no escape is decoded.
\<close>

theorem C3_parseTags_verbatim:
  "parseTags tagsRaw =
     Inr (\<lambda>k. case find (\<lambda>e. tagKey e = k) (rev (Split (TrimPrefix tagsRaw ''@'') '';'')) of
                 None \<Rightarrow> None
               | Some e \<Rightarrow> Some (tagValue e))"
  by (simp add: parseTags_def parseTagsLoop_eq fun_eq_iff foldl_upd_lookup)

text \<open>
  C3 (as the claim has it) fails: the tag \<open>foo=a\\sb\<close> decodes to the value \<open>a\\sb\<close>,
  four bytes with the backslash still in it, and not to \<open>a b\<close>.
\<close>

theorem C3_escape_counterexample:
  "parseTags (''@foo=a'' @ escS @ ''b'') = Inr [''foo'' \<mapsto> ''a'' @ escS @ ''b'']
   \<and> ''a'' @ escS @ ''b'' \<noteq> ''a b''"
  by (simp add: parseTags_def parseTag_def escS_def eval_defs)

section \<open>The dispatch table\<close>


lemma andThen_Inr: "andThen m f = Inr y \<longleftrightarrow> (\<exists>x. m = Inr x \<and> f x = Inr y)"
  by (cases m) (simp_all add: andThen_def)




lemma parseMessageType_values:
  "parseMessageType ''WHISPER'' = WHISPER" "parseMessageType ''PRIVMSG'' = PRIVMSG"
  "parseMessageType ''CLEARCHAT'' = CLEARCHAT" "parseMessageType ''ROOMSTATE'' = ROOMSTATE"
  "parseMessageType ''USERNOTICE'' = USERNOTICE" "parseMessageType ''USERSTATE'' = USERSTATE"
  "parseMessageType ''NOTICE'' = NOTICE" "parseMessageType ''JOIN'' = JOIN"
  "parseMessageType ''PART'' = PART" "parseMessageType ''RECONNECT'' = RECONNECT"
  "parseMessageType ''353'' = NAMES" "parseMessageType ''PING'' = PING"
  "parseMessageType ''PONG'' = PONG"
  by (simp_all add: parseMessageType_def messageTypeMapType_def)











lemma parseNamesMessage_eq:
  "parseNamesMessage message =
     Inr (MNames \<lparr>nm_Raw = ircRaw message, nm_Type = parseMessageType (Command message),
                  nm_RawType = Command message,
                  nm_Channel = (if length (Params message) = 4
                                then TrimPrefix (Params message ! 2) ''#'' else []),
                  nm_Users = (if length (Params message) = 4
                              then Split (Params message ! 3) '' '' else [])\<rparr>)"
  by (simp add: parseNamesMessage_def at_def andThen_def)

text \<open>
  C7 fails in \<open>message.go\<close>: on the \<open>353\<close> line \<open>:tmi.twitch.tv 353 justinfan123 =\<close>,
  which has two parameters, \<open>parseNames\<close> reads \<open>channelDirty[1]\<close> out of range and
  panics, where \<open>parseNamesMessage\<close> of the dispatch-table decoder returns the record with
  an empty channel and an empty user list.
\<close>

theorem C7_parseNames_panics:
  "parseNames '':tmi.twitch.tv 353 justinfan123 ='' = Inl IndexOutOfRange
   \<and> parseNamesMessage (shortNamesLine\<lparr>ircRaw := '':tmi.twitch.tv 353 justinfan123 =''\<rparr>) =
       Inr (MNames \<lparr>nm_Raw = '':tmi.twitch.tv 353 justinfan123 ='', nm_Type = NAMES,
                    nm_RawType = ''353'', nm_Channel = [], nm_Users = []\<rparr>)"
  by (simp add: parseNames_def parseNamesMessage_eq shortNamesLine_def parseMessageType_values
      eval_defs)

lemma Split_nonempty: "Split s sep \<noteq> []"
  by (simp add: Split_def SplitN_nonempty)

lemma at_0: "xs \<noteq> [] \<Longrightarrow> at xs 0 = Inr (hd xs)"
  by (cases xs) (simp_all add: at_def)

text \<open>
  C9 (as the code has it).  For a line that does not begin with \<open>@\<close>, \<open>parseMessage\<close>
  of \<open>message.go\<close> looks no command up: the record has kind \<open>UNSET\<close>, no tags, an empty
  command, and the whole line as its raw text and as its message.  In the dispatch-table
  decoder the kind comes from the command token the framer reports, so a framed
  \<open>PING\<close> or \<open>PONG\<close> always decodes to a record of kind \<open>PING\<close> or \<open>PONG\<close>.
\<close>

theorem C9_untagged:
  "(\<not> HasPrefix line ''@'' \<longrightarrow>
      parseMessage line =
        Inr \<lparr>msgRawMessage = \<lparr>Type = UNSET, RawType = [], Raw = line, Tags = Map.empty,
                               Message = line\<rparr>,
             msgChannel = [], msgUsername = []\<rparr>)
   \<and> (parseIRCMessage line = (message, False) \<and> Command message = ''PING'' \<longrightarrow>
        (\<exists>p. ParseMessage rt parseIRCMessage line = Inr (MPing p) \<and> pi_Type p = PING))
   \<and> (parseIRCMessage line = (message, False) \<and> Command message = ''PONG'' \<longrightarrow>
        (\<exists>p. ParseMessage rt parseIRCMessage line = Inr (MPong p) \<and> po_Type p = PONG))"
  by (simp add: parseMessage_def ParseMessage_def messageTypeMap_def parsePingMessage_def
      parsePongMessage_def parseMessageType_def messageTypeMapType_def andThen_def at_0
      Split_nonempty at_def)

text \<open>
  C9 at the line \<open>PING :tmi.twitch.tv\<close>, in both decoders.
\<close>

theorem C9_untagged_witness:
  "parseMessage ''PING :tmi.twitch.tv'' =
     Inr \<lparr>msgRawMessage = \<lparr>Type = UNSET, RawType = [], Raw = ''PING :tmi.twitch.tv'',
                            Tags = Map.empty, Message = ''PING :tmi.twitch.tv''\<rparr>,
          msgChannel = [], msgUsername = []\<rparr>
   \<and> (\<exists>p. ParseMessage exactRt (framed pingLine) ''PING :tmi.twitch.tv'' = Inr (MPing p)
        \<and> pi_Type p = PING)"
  using C9_untagged [where line = "''PING :tmi.twitch.tv''" and parseIRCMessage = "framed pingLine"
      and message = "pingLine\<lparr>ircRaw := ''PING :tmi.twitch.tv''\<rparr>" and rt = exactRt]
  by (simp add: HasPrefix_def framed_def pingLine_def)

text \<open>
  C9 (as the claim has it) fails in \<open>message.go\<close>: the untagged line
  \<open>PING :tmi.twitch.tv\<close> decodes to kind \<open>UNSET\<close>, which is not \<open>PING\<close>.
\<close>

theorem C9_untagged_counterexample:
  "parseMessage ''PING :tmi.twitch.tv'' =
     Inr \<lparr>msgRawMessage = \<lparr>Type = UNSET, RawType = [], Raw = ''PING :tmi.twitch.tv'',
                            Tags = Map.empty, Message = ''PING :tmi.twitch.tv''\<rparr>,
          msgChannel = [], msgUsername = []\<rparr>
   \<and> UNSET \<noteq> PING"
  by (simp add: parseMessage_def HasPrefix_def UNSET_def PING_def)

text \<open>
  C1 fails: decoding panics on well-formed text.  In \<open>message.go\<close> the padding loop of
  \<open>parseMessage\<close> appends one segment where two are missing, so the tagged line
  \<open>@foo=bar\<close> reads \<open>split[2]\<close> out of range.  In the dispatch-table decoder a
  \<open>PRIVMSG\<close> whose \<open>badges\<close> tag has a badge without \<open>/level\<close> reads \<open>pair[1]\<close> out
  of range in \<open>parseBadges\<close>, whatever the run time.
\<close>

theorem C1_decode_panics:
  "parseMessage ''@foo=bar'' = Inl IndexOutOfRange
   \<and> ParseMessage rt (framed badBadgesLine) ''@badges=broadcaster :u!u@u.tmi.twitch.tv PRIVMSG #c :hi''
       = Inl IndexOutOfRange"
  by (simp add: parseMessage_def parseMiddle_def parseTags_def parseTag_def ParseMessage_def
      framed_def badBadgesLine_def messageTypeMap_def secondOfTwo_def
      parsePrivateMessage_def parseUser_def parseBadges_def parseBadge_def tag_def eval_defs)

text \<open>
  C8 fails in the dispatch-table decoder: on the badges value \<open>broadcaster\<close>, a pair
  without its \<open>/level\<close> half, \<open>parseBadges\<close> panics, where the loop of \<open>parseBadges\<close>
  in \<open>message.go\<close> skips the pair and returns the empty map.
\<close>

theorem C8_badge_without_level_panics:
  "parseBadges ''broadcaster'' = Inl IndexOutOfRange
   \<and> parseBadgesLoop_v1 Map.empty (Split ''broadcaster'' '','') = Inr Map.empty"
  by (simp add: parseBadges_def parseBadge_def parseBadge_v1_def eval_defs)

section \<open>The parameter bag of a user notice\<close>

lemma Contains_known:
  "Contains ''msg-param-cumulative-months'' ''msg-param''"
  "Contains ''msg-param-months'' ''msg-param''"
  "Contains ''msg-param-should-share-streak'' ''msg-param''"
  "Contains ''msg-param-streak-months'' ''msg-param''"
  "Contains ''msg-param-viewerCount'' ''msg-param''"
  by (simp_all add: Contains_def)

lemma parseMsgParams_eq:
  "parseMsgParams tags =
     Inr (\<lambda>k. case tags k of
                 None \<Rightarrow> None
               | Some v \<Rightarrow>
                   if \<not> Contains k ''msg-param'' then None
                   else if k \<in> intParams then Some (PInt (Atoi (ReplaceAll v escS '' '')))
                   else if k = ''msg-param-should-share-streak''
                     then Some (PBool (ReplaceAll v escS '' '' = ''1''))
                   else Some (PString (ReplaceAll v escS '' '')))"
proof -
  let ?c = "copyMsgParams tags"
  have c: "?c k = (case tags k of None \<Rightarrow> None
      | Some v \<Rightarrow> if Contains k ''msg-param'' then Some (PString (ReplaceAll v escS '' '')) else None)" for k
    by (simp add: copyMsgParams_def)
  have 1: "paramToInt ?c ''msg-param-cumulative-months'' = Inr (?c(''msg-param-cumulative-months'' :=
      map_option (\<lambda>v. PInt (Atoi (ReplaceAll v escS '' ''))) (tags ''msg-param-cumulative-months'')))"
    (is "_ = Inr ?p1")
    by (auto simp: paramToInt_def c Contains_known fun_eq_iff split: option.splits)
  have 2: "paramToInt ?p1 ''msg-param-months'' = Inr (?p1(''msg-param-months'' :=
      map_option (\<lambda>v. PInt (Atoi (ReplaceAll v escS '' ''))) (tags ''msg-param-months'')))"
    (is "_ = Inr ?p2")
    by (auto simp: paramToInt_def c Contains_known fun_eq_iff split: option.splits)
  have 3: "paramToBool ?p2 ''msg-param-should-share-streak'' = Inr (?p2(''msg-param-should-share-streak'' :=
      map_option (\<lambda>v. PBool (ReplaceAll v escS '' '' = ''1'')) (tags ''msg-param-should-share-streak'')))"
    (is "_ = Inr ?p3")
    by (auto simp: paramToBool_def c Contains_known fun_eq_iff split: option.splits)
  have 4: "paramToInt ?p3 ''msg-param-streak-months'' = Inr (?p3(''msg-param-streak-months'' :=
      map_option (\<lambda>v. PInt (Atoi (ReplaceAll v escS '' ''))) (tags ''msg-param-streak-months'')))"
    (is "_ = Inr ?p4")
    by (auto simp: paramToInt_def c Contains_known fun_eq_iff split: option.splits)
  have 5: "paramToInt ?p4 ''msg-param-viewerCount'' = Inr (?p4(''msg-param-viewerCount'' :=
      map_option (\<lambda>v. PInt (Atoi (ReplaceAll v escS '' ''))) (tags ''msg-param-viewerCount'')))"
    (is "_ = Inr ?p5")
    by (auto simp: paramToInt_def c Contains_known fun_eq_iff split: option.splits)
  have "parseMsgParams tags = Inr ?p5"
    unfolding parseMsgParams_def by (simp only: 1 2 3 4 5 andThen_def sum.case)
  moreover have "?p5 = (\<lambda>k. case tags k of
                 None \<Rightarrow> None
               | Some v \<Rightarrow>
                   if \<not> Contains k ''msg-param'' then None
                   else if k \<in> intParams then Some (PInt (Atoi (ReplaceAll v escS '' '')))
                   else if k = ''msg-param-should-share-streak''
                     then Some (PBool (ReplaceAll v escS '' '' = ''1''))
                   else Some (PString (ReplaceAll v escS '' '')))"
    by (auto simp: fun_eq_iff c Contains_known intParams_def split: option.splits)
  ultimately show ?thesis by simp
qed

lemma parseUSERNOTICEMessage_params:
  assumes "parseUSERNOTICEMessage rt m = Inr (user, notice)"
  shows "parseMsgParams (Tags (msgRawMessage m)) = Inr (MsgParams notice)"
  using assms
  by (auto simp: parseUSERNOTICEMessage_def andThen_Inr Let_def parseChatMessage_def
      parseRoomMessage_def parseChannelMessage_def split: prod.splits)

lemma parseUserNoticeMessage_params:
  assumes "parseUserNoticeMessage rt message = Inr (MUserNotice n)"
  shows "un_MsgParams n =
           (\<lambda>k. case ircTags message k of
                   None \<Rightarrow> None
                 | Some v \<Rightarrow> if Contains k ''msg-param'' then Some v else None)"
  using assms
  by (auto simp: parseUserNoticeMessage_def andThen_Inr)

text \<open>
  C6 (as the code has it).  In \<open>message.go\<close>, \<open>parseMsgParams\<close> never panics, and the bag
  holds exactly the tags whose name contains \<open>msg-param\<close>, each value with every \<open>\\s\<close>
  replaced by a space: as an integer for the four keys of \<open>intParams\<close>, as the boolean
  "equals \<open>1\<close>" for \<open>msg-param-should-share-streak\<close>, and as a string for every other key;
  it is the bag of every record \<open>parseUSERNOTICEMessage\<close> returns.  In the dispatch-table
  decoder the bag of a record \<open>parseUserNoticeMessage\<close> returns holds the same tags, each
  with its value as a string, unchanged.
\<close>

theorem C6_msg_params:
  "parseMsgParams tags =
     Inr (\<lambda>k. case tags k of
                 None \<Rightarrow> None
               | Some v \<Rightarrow>
                   if \<not> Contains k ''msg-param'' then None
                   else if k \<in> intParams then Some (PInt (Atoi (ReplaceAll v escS '' '')))
                   else if k = ''msg-param-should-share-streak''
                     then Some (PBool (ReplaceAll v escS '' '' = ''1''))
                   else Some (PString (ReplaceAll v escS '' '')))
   \<and> (parseUSERNOTICEMessage rt m = Inr (user, notice) \<longrightarrow>
        parseMsgParams (Tags (msgRawMessage m)) = Inr (MsgParams notice))
   \<and> (parseUserNoticeMessage rt message = Inr (MUserNotice n) \<longrightarrow>
        un_MsgParams n =
          (\<lambda>k. case ircTags message k of
                  None \<Rightarrow> None
                | Some v \<Rightarrow> if Contains k ''msg-param'' then Some v else None))"
  using parseMsgParams_eq [of tags] parseUSERNOTICEMessage_params [of rt m user notice]
    parseUserNoticeMessage_params [of rt message n]
  by blast

lemma noticeMessage_eval:
  "\<exists>u n. parseUSERNOTICEMessage exactRt noticeMessage = Inr (u, n)"
  by (simp add: parseUSERNOTICEMessage_def parseUserMessage_def parseEmotes_v1_def
      parseMsgParams_eq parseChatMessage_def parseRoomMessage_def parseChannelMessage_def
      parseUser_v1_def parseBadges_v1_def andThen_def Let_def tag_def split: prod.splits)
     (simp add: noticeMessage_def)

lemma monthsLine_eval:
  "parseUserNoticeMessage exactRt monthsLine =
     Inr (MUserNotice
       \<lparr>un_User = \<lparr>UserID = [], UserName = ''u'', DisplayName = [], Color = [],
                   Badges = Map.empty\<rparr>,
        un_Raw = [], un_Type = USERNOTICE, un_RawType = ''USERNOTICE'',
        un_Tags = [''msg-param-months'' \<mapsto> ''6''], un_RoomID = [], un_ID = [], un_Time = None,
        un_MsgID = [], un_MsgParams = [''msg-param-months'' \<mapsto> ''6''], un_SystemMsg = [],
        un_Message = [], un_Channel = ''c'', un_Emotes = []\<rparr>)"
  by (simp add: parseUserNoticeMessage_def monthsLine_def parseUser_def tag_def secondOfTwo_def
      parseEmotes_def parseTime_def andThen_def at_def Let_def parseMessageType_values
      TrimPrefix_def HasPrefix_def)
     (auto simp: fun_eq_iff Contains_known)

text \<open>
  C6 at a \<open>USERNOTICE\<close> of \<open>message.go\<close> with an integer, a boolean and an escaped string
  parameter, and at a framed \<open>USERNOTICE\<close> whose \<open>msg-param-months\<close> stays the string
  \<open>6\<close>.
\<close>

theorem C6_msg_params_witness:
  "(\<exists>u n. parseUSERNOTICEMessage exactRt noticeMessage = Inr (u, n)
     \<and> MsgParams n ''msg-param-months'' = Some (PInt 6)
     \<and> MsgParams n ''msg-param-should-share-streak'' = Some (PBool True)
     \<and> MsgParams n ''msg-param-sub-plan-name'' = Some (PString ''Channel Sub'')
     \<and> MsgParams n ''msg-id'' = None)
   \<and> (\<exists>n. parseUserNoticeMessage exactRt monthsLine = Inr (MUserNotice n)
         \<and> un_MsgParams n ''msg-param-months'' = Some ''6'')"
proof -
  obtain u n where n: "parseUSERNOTICEMessage exactRt noticeMessage = Inr (u, n)"
    using noticeMessage_eval by blast
  obtain n' where n': "parseUserNoticeMessage exactRt monthsLine = Inr (MUserNotice n')"
    using monthsLine_eval by blast
  have r: "ReplaceAll planName escS '' '' = ''Channel Sub''"
    "ReplaceAll ''6'' escS '' '' = ''6''" "ReplaceAll ''1'' escS '' '' = ''1''"
    "Atoi ''6'' = 6" "\<not> Contains ''msg-id'' ''msg-param''"
    "Contains ''msg-param-sub-plan-name'' ''msg-param''"
    by (simp_all add: planName_def escS_def ReplaceAll.simps Atoi_def ParseInt_def isDigit_def
        digitsVal_def Contains_def)
  have t: "Tags (msgRawMessage noticeMessage) =
      [''msg-param-months'' \<mapsto> ''6'', ''msg-param-should-share-streak'' \<mapsto> ''1'',
       ''msg-param-sub-plan-name'' \<mapsto> planName, ''msg-id'' \<mapsto> ''resub'']"
    by (simp add: noticeMessage_def)
  have t': "ircTags monthsLine = [''msg-param-months'' \<mapsto> ''6'']"
    by (simp add: monthsLine_def)
  note C6 = C6_msg_params [where tags = "Tags (msgRawMessage noticeMessage)" and rt = exactRt
      and m = noticeMessage and user = u and notice = n and message = monthsLine and n = n']
  from C6 n have "MsgParams n = (\<lambda>k. case Tags (msgRawMessage noticeMessage) k of
                 None \<Rightarrow> None
               | Some v \<Rightarrow>
                   if \<not> Contains k ''msg-param'' then None
                   else if k \<in> intParams then Some (PInt (Atoi (ReplaceAll v escS '' '')))
                   else if k = ''msg-param-should-share-streak''
                     then Some (PBool (ReplaceAll v escS '' '' = ''1''))
                   else Some (PString (ReplaceAll v escS '' '')))"
    by auto
  moreover from C6 n' have "un_MsgParams n' =
          (\<lambda>k. case ircTags monthsLine k of
                  None \<Rightarrow> None
                | Some v \<Rightarrow> if Contains k ''msg-param'' then Some v else None)"
    by auto
  ultimately show ?thesis using n n'
    by (simp add: t t' r Contains_known intParams_def)
qed

text \<open>
  C6 (as the claim has it) fails in the dispatch-table decoder: for a \<open>USERNOTICE\<close> with
  the tag \<open>msg-param-months=6\<close>, the bag of the record maps \<open>msg-param-months\<close> to the
  string \<open>6\<close>; the bag is a map from strings to strings and holds no integer.
\<close>

theorem C6_string_bag_counterexample:
  "parseUserNoticeMessage exactRt monthsLine =
     Inr (MUserNotice
       \<lparr>un_User = \<lparr>UserID = [], UserName = ''u'', DisplayName = [], Color = [],
                   Badges = Map.empty\<rparr>,
        un_Raw = [], un_Type = USERNOTICE, un_RawType = ''USERNOTICE'',
        un_Tags = [''msg-param-months'' \<mapsto> ''6''], un_RoomID = [], un_ID = [], un_Time = None,
        un_MsgID = [], un_MsgParams = [''msg-param-months'' \<mapsto> ''6''], un_SystemMsg = [],
        un_Message = [], un_Channel = ''c'', un_Emotes = []\<rparr>)"
  by (rule monthsLine_eval)

section \<open>Action bodies\<close>

lemma secondOfTwo_body: "secondOfTwo (Params message) = Inr (body message)"
  by (simp add: secondOfTwo_def body_def at_def)

lemma Message_update_same: "r\<lparr>Message := x\<rparr> = r \<Longrightarrow> Message r = x"
  by (cases r) simp

lemma strip_len: "nat (int n - 1) - 8 = n - 9"
  by arith

lemma stripAction_Inr: "stripAction text = Inr t \<Longrightarrow> t = actionBody text"
  by (auto simp: stripAction_def slice_def actionBody_def strip_len split: if_splits)

lemma actionBody_spaced: "actionBody (actionPrefix @ '' '' @ rest @ actionSuffix) = rest"
  by (simp add: actionBody_def actionPrefix_def actionSuffix_def)

lemma parsePrivateMessage_action:
  assumes "parsePrivateMessage rt message = Inr (MPrivate p)"
  shows "pm_Action p = actionShaped (body message)"
    and "pm_Message p = (if actionShaped (body message) then actionBody (body message) else body message)"
    and "parseEmotes rt (tag (ircTags message) ''emotes'') (body message) = Inr (pm_Emotes p)"
  using assms
  by (auto simp: parsePrivateMessage_def andThen_Inr secondOfTwo_body Let_def actionShaped_def
      dest: stripAction_Inr split: if_splits)

lemma parseWhisperMessage_action:
  assumes "parseWhisperMessage rt message = Inr (MWhisper w)"
  shows "wh_Action w = Contains (body message) ''/me''"
    and "wh_Message w = (if Contains (body message) ''/me'' then TrimPrefix (body message) ''/me''
                         else body message)"
  using assms
  by (auto simp: parseWhisperMessage_def andThen_Inr secondOfTwo_body)

lemma parsePRIVMSGMessage_action:
  assumes "parsePRIVMSGMessage rt m = Inr (user, p)"
  shows "Action (pmUserMessage p) = actionShaped (Message (msgRawMessage m))"
    and "chatText (pmChatMessage p) =
           (if actionShaped (Message (msgRawMessage m)) then actionBody (Message (msgRawMessage m))
            else Message (msgRawMessage m))"
    and "parseEmotes_v1 rt m = Inr (Emotes (pmUserMessage p))"
  using assms
  by (auto simp: parsePRIVMSGMessage_def parseUserMessage_def andThen_Inr Let_def actionShaped_def
      chatText_def setChatText_def parseChatMessage_def parseRoomMessage_def
      parseChannelMessage_def
      dest!: stripAction_Inr Message_update_same split: if_splits prod.splits)

lemma parseWHISPERMessage_action:
  assumes "parseWHISPERMessage rt m = Inr (user, w)"
  shows "Action (wmUserMessage w) = actionShaped (Message (msgRawMessage m))"
    and "Message (wmRawMessage w) =
           (if actionShaped (Message (msgRawMessage m)) then actionBody (Message (msgRawMessage m))
            else Message (msgRawMessage m))"
  using assms
  by (auto simp: parseWHISPERMessage_def parseUserMessage_def andThen_Inr Let_def actionShaped_def
      dest!: stripAction_Inr Message_update_same split: if_splits)

lemma spaced_text:
  assumes "t = (if actionShaped b then actionBody b else b)"
    and "b = actionPrefix @ '' '' @ rest @ actionSuffix"
  shows "t = rest"
proof -
  have "suffix actionSuffix ((actionPrefix @ '' '' @ rest) @ actionSuffix)"
    by (rule suffix_appendI) simp
  with assms(2) have "actionShaped b"
    by (simp add: actionShaped_def HasPrefix_def HasSuffix_def)
  with assms show ?thesis by (simp add: actionBody_spaced [simplified])
qed

text \<open>
  C5 (as the code has it).  In both \<open>PRIVMSG\<close> decoders and in the \<open>WHISPER\<close> decoder of
  \<open>message.go\<close>, a returned record has its action flag set exactly when the body starts
  with \<open>\\x01ACTION\<close> and ends with \<open>\\x01\<close>; when the body is \<open>\\x01ACTION\<close>, a space, a
  text and \<open>\\x01\<close>, the text of the record is that text; and when the body has not the
  action shape, it is the unchanged body.  In the \<open>WHISPER\<close> decoder of the dispatch table
  the flag is set exactly when the body contains \<open>/me\<close>, and the text is then the body
  without a leading \<open>/me\<close>, and the unchanged body otherwise.
\<close>

theorem C5_action:
  "(parsePrivateMessage rt message = Inr (MPrivate p) \<longrightarrow>
      pm_Action p = actionShaped (body message)
      \<and> (body message = actionPrefix @ '' '' @ rest @ actionSuffix \<longrightarrow> pm_Message p = rest)
      \<and> (\<not> actionShaped (body message) \<longrightarrow> pm_Message p = body message))
   \<and> (parsePRIVMSGMessage rt m = Inr (user, q) \<longrightarrow>
      Action (pmUserMessage q) = actionShaped (Message (msgRawMessage m))
      \<and> (Message (msgRawMessage m) = actionPrefix @ '' '' @ rest' @ actionSuffix \<longrightarrow>
            chatText (pmChatMessage q) = rest')
      \<and> (\<not> actionShaped (Message (msgRawMessage m)) \<longrightarrow>
            chatText (pmChatMessage q) = Message (msgRawMessage m)))
   \<and> (parseWHISPERMessage rt m = Inr (user, w) \<longrightarrow>
      Action (wmUserMessage w) = actionShaped (Message (msgRawMessage m))
      \<and> (Message (msgRawMessage m) = actionPrefix @ '' '' @ rest' @ actionSuffix \<longrightarrow>
            Message (wmRawMessage w) = rest')
      \<and> (\<not> actionShaped (Message (msgRawMessage m)) \<longrightarrow>
            Message (wmRawMessage w) = Message (msgRawMessage m)))
   \<and> (parseWhisperMessage rt message = Inr (MWhisper w') \<longrightarrow>
      wh_Action w' = Contains (body message) ''/me''
      \<and> wh_Message w' = (if Contains (body message) ''/me'' then TrimPrefix (body message) ''/me''
                         else body message))"
proof -
  have 1: "pm_Action p = actionShaped (body message)
      \<and> (body message = actionPrefix @ '' '' @ rest @ actionSuffix \<longrightarrow> pm_Message p = rest)
      \<and> (\<not> actionShaped (body message) \<longrightarrow> pm_Message p = body message)"
    if "parsePrivateMessage rt message = Inr (MPrivate p)"
    using parsePrivateMessage_action(1,2) [OF that] spaced_text [of "pm_Message p" "body message" rest]
    by simp
  have 2: "Action (pmUserMessage q) = actionShaped (Message (msgRawMessage m))
      \<and> (Message (msgRawMessage m) = actionPrefix @ '' '' @ rest' @ actionSuffix \<longrightarrow>
            chatText (pmChatMessage q) = rest')
      \<and> (\<not> actionShaped (Message (msgRawMessage m)) \<longrightarrow>
            chatText (pmChatMessage q) = Message (msgRawMessage m))"
    if "parsePRIVMSGMessage rt m = Inr (user, q)"
    using parsePRIVMSGMessage_action(1,2) [OF that]
      spaced_text [of "chatText (pmChatMessage q)" "Message (msgRawMessage m)" rest']
    by simp
  have 3: "Action (wmUserMessage w) = actionShaped (Message (msgRawMessage m))
      \<and> (Message (msgRawMessage m) = actionPrefix @ '' '' @ rest' @ actionSuffix \<longrightarrow>
            Message (wmRawMessage w) = rest')
      \<and> (\<not> actionShaped (Message (msgRawMessage m)) \<longrightarrow>
            Message (wmRawMessage w) = Message (msgRawMessage m))"
    if "parseWHISPERMessage rt m = Inr (user, w)"
    using parseWHISPERMessage_action [OF that]
      spaced_text [of "Message (wmRawMessage w)" "Message (msgRawMessage m)" rest']
    by simp
  have 4: "wh_Action w' = Contains (body message) ''/me''
      \<and> wh_Message w' = (if Contains (body message) ''/me'' then TrimPrefix (body message) ''/me''
                         else body message)"
    if "parseWhisperMessage rt message = Inr (MWhisper w')"
    using parseWhisperMessage_action [OF that] by simp
  from 1 2 3 4 show ?thesis by blast
qed

lemma emotes_eval:
  "parseEmotes exactRt ''25:8-12'' kappaAction = Inr [\<lparr>Name = ''Kappa'', ID = ''25'', Count = 1\<rparr>]"
  by code_simp

lemma emotes_v1_eval:
  "parseEmotes_v1 exactRt actionMessage = Inr [\<lparr>Name = ''Kappa'', ID = ''25'', Count = 1\<rparr>]"
  by code_simp

lemma emotes_v1_kappa_eval:
  "parseEmotes_v1 exactRt kappaMessage = Inr [\<lparr>Name = ''Kapp'', ID = ''25'', Count = 2\<rparr>]"
  by code_simp

lemma kappaAction_spaced: "kappaAction = actionPrefix @ '' '' @ ''Kappa'' @ actionSuffix"
  by (simp add: kappaAction_def)

lemma kappaAction_shaped: "actionShaped kappaAction"
  by (simp add: kappaAction_def actionShaped_def actionPrefix_def actionSuffix_def HasPrefix_def
      HasSuffix_def suffix_to_prefix)

lemma not_shaped: "\<not> actionShaped ''hi''" "\<not> actionShaped ''Kappa Kappa''"
  by (simp_all add: actionShaped_def actionPrefix_def HasPrefix_def)

lemma actionLine_eval:
  "\<exists>p. parsePrivateMessage exactRt actionLine = Inr (MPrivate p)"
  by (simp add: parsePrivateMessage_def actionLine_def parseUser_def tag_def secondOfTwo_def
      emotes_eval andThen_def at_def Let_def)
     (simp add: stripAction_def slice_def HasPrefix_def HasSuffix_def
        suffix_to_prefix kappaAction_def actionPrefix_def actionSuffix_def)

lemma plainLine_eval:
  "\<exists>p. parsePrivateMessage exactRt plainLine = Inr (MPrivate p)"
  by (simp add: parsePrivateMessage_def plainLine_def parseUser_def tag_def secondOfTwo_def
      parseEmotes_def andThen_def at_def Let_def)
     (simp add: HasPrefix_def actionPrefix_def)

lemma userMessage_eval:
  "parseUserMessage exactRt actionMessage =
     Inr \<lparr>Action = True, Emotes = [\<lparr>Name = ''Kappa'', ID = ''25'', Count = 1\<rparr>]\<rparr>"
  by (simp add: parseUserMessage_def emotes_v1_eval andThen_def)
     (simp add: actionMessage_def HasPrefix_def HasSuffix_def suffix_to_prefix actionPrefix_def
        actionSuffix_def kappaAction_def)

lemma userMessage_kappa_eval:
  "parseUserMessage exactRt kappaMessage =
     Inr \<lparr>Action = False, Emotes = [\<lparr>Name = ''Kapp'', ID = ''25'', Count = 2\<rparr>]\<rparr>"
  by (simp add: parseUserMessage_def emotes_v1_kappa_eval andThen_def)
     (simp add: kappaMessage_def HasPrefix_def actionPrefix_def)

lemma actionMessage_eval:
  "\<exists>u p. parsePRIVMSGMessage exactRt actionMessage = Inr (u, p)"
  by (simp add: parsePRIVMSGMessage_def userMessage_eval andThen_def)
     (simp add: actionMessage_def parseUser_v1_def parseBadges_v1_def parseChatMessage_def
        parseRoomMessage_def parseChannelMessage_def chatText_def tag_def stripAction_def
        slice_def actionPrefix_def actionSuffix_def kappaAction_def ParseInt_def Let_def andThen_def)

lemma kappaMessage_eval:
  "\<exists>u p. parsePRIVMSGMessage exactRt kappaMessage = Inr (u, p)"
  by (simp add: parsePRIVMSGMessage_def userMessage_kappa_eval andThen_def)
     (simp add: kappaMessage_def parseUser_v1_def parseBadges_v1_def parseChatMessage_def
        parseRoomMessage_def parseChannelMessage_def tag_def ParseInt_def Let_def andThen_def)

lemma whisperMessage_eval:
  "\<exists>u w. parseWHISPERMessage exactRt actionMessage = Inr (u, w)"
  by (simp add: parseWHISPERMessage_def userMessage_eval andThen_def)
     (simp add: actionMessage_def parseUser_v1_def parseBadges_v1_def tag_def stripAction_def
        slice_def actionPrefix_def actionSuffix_def kappaAction_def andThen_def)

lemma whisperActionLine_eval:
  "parseWhisperMessage exactRt whisperActionLine =
     Inr (MWhisper
       \<lparr>wh_User = \<lparr>UserID = [], UserName = ''u'', DisplayName = [], Color = [],
                   Badges = Map.empty\<rparr>,
        wh_Raw = [], wh_Type = WHISPER, wh_RawType = ''WHISPER'', wh_Tags = Map.empty,
        wh_MessageID = [], wh_ThreadID = [], wh_Message = hiAction, wh_Target = ''v'',
        wh_Emotes = [], wh_Action = False\<rparr>)"
  by (simp add: parseWhisperMessage_def whisperActionLine_def parseUser_def tag_def
      secondOfTwo_def parseEmotes_def andThen_def at_def Let_def parseMessageType_def
      messageTypeMapType_def)
     (simp add: Contains_def hiAction_def actionPrefix_def actionSuffix_def)

text \<open>
  C5 at the bodies \<open>\\x01ACTION Kappa\\x01\<close>, \<open>hi\<close> and \<open>Kappa Kappa\<close> of a \<open>PRIVMSG\<close>,
  and at the body \<open>\\x01ACTION hi\\x01\<close> of a framed \<open>WHISPER\<close>.
\<close>

theorem C5_action_witness:
  "(\<exists>p. parsePrivateMessage exactRt actionLine = Inr (MPrivate p) \<and> pm_Action p
         \<and> pm_Message p = ''Kappa'')
   \<and> (\<exists>p. parsePrivateMessage exactRt plainLine = Inr (MPrivate p) \<and> \<not> pm_Action p
         \<and> pm_Message p = ''hi'')
   \<and> (\<exists>u q. parsePRIVMSGMessage exactRt actionMessage = Inr (u, q) \<and> Action (pmUserMessage q)
         \<and> chatText (pmChatMessage q) = ''Kappa'')
   \<and> (\<exists>u q. parsePRIVMSGMessage exactRt kappaMessage = Inr (u, q) \<and> \<not> Action (pmUserMessage q)
         \<and> chatText (pmChatMessage q) = ''Kappa Kappa'')
   \<and> (\<exists>u w. parseWHISPERMessage exactRt actionMessage = Inr (u, w) \<and> Action (wmUserMessage w)
         \<and> Message (wmRawMessage w) = ''Kappa'')
   \<and> (\<exists>w. parseWhisperMessage exactRt whisperActionLine = Inr (MWhisper w) \<and> \<not> wh_Action w
         \<and> wh_Message w = hiAction)"
proof -
  obtain p where p: "parsePrivateMessage exactRt actionLine = Inr (MPrivate p)"
    using actionLine_eval by blast
  obtain p' where p': "parsePrivateMessage exactRt plainLine = Inr (MPrivate p')"
    using plainLine_eval by blast
  obtain u q where q: "parsePRIVMSGMessage exactRt actionMessage = Inr (u, q)"
    using actionMessage_eval by blast
  obtain v q' where q': "parsePRIVMSGMessage exactRt kappaMessage = Inr (v, q')"
    using kappaMessage_eval by blast
  obtain u' w where w: "parseWHISPERMessage exactRt actionMessage = Inr (u', w)"
    using whisperMessage_eval by blast
  obtain w' where w': "parseWhisperMessage exactRt whisperActionLine = Inr (MWhisper w')"
    using whisperActionLine_eval by blast
  have b: "body actionLine = kappaAction" "body whisperActionLine = hiAction"
    "body plainLine = ''hi''"
    by (simp_all add: body_def actionLine_def whisperActionLine_def plainLine_def)
  have m: "Message (msgRawMessage actionMessage) = kappaAction"
    "Message (msgRawMessage kappaMessage) = ''Kappa Kappa''"
    by (simp_all add: actionMessage_def kappaMessage_def)
  have s: "\<not> Contains hiAction ''/me''"
    by (simp add: hiAction_def actionPrefix_def actionSuffix_def Contains_def)
  note k = kappaAction_spaced kappaAction_shaped not_shaped
  from C5_action [where rt = exactRt and message = actionLine and p = p and rest = "''Kappa''"
      and m = actionMessage and user = u and q = q and rest' = "''Kappa''"]
    C5_action [where rt = exactRt and message = plainLine and p = p'
      and m = kappaMessage and user = v and q = q']
    C5_action [where rt = exactRt and m = actionMessage and user = u' and w = w
      and rest' = "''Kappa''" and message = whisperActionLine and w' = w']
    p p' q q' w w'
  show ?thesis
    using k by (simp add: b m s)
qed

text \<open>
  C5 (as the claim has it) fails for \<open>WHISPER\<close> in the dispatch-table decoder: the body
  \<open>\\x01ACTION hi\\x01\<close> has the action shape, and the record keeps it unchanged with the
  action flag false.
\<close>

theorem C5_whisper_counterexample:
  "parseWhisperMessage exactRt whisperActionLine =
     Inr (MWhisper
       \<lparr>wh_User = \<lparr>UserID = [], UserName = ''u'', DisplayName = [], Color = [],
                   Badges = Map.empty\<rparr>,
        wh_Raw = [], wh_Type = WHISPER, wh_RawType = ''WHISPER'', wh_Tags = Map.empty,
        wh_MessageID = [], wh_ThreadID = [], wh_Message = hiAction, wh_Target = ''v'',
        wh_Emotes = [], wh_Action = False\<rparr>)
   \<and> actionShaped hiAction"
  by (simp add: whisperActionLine_eval)
     (simp add: hiAction_def actionShaped_def actionPrefix_def actionSuffix_def HasPrefix_def
        HasSuffix_def suffix_to_prefix)

section \<open>Emote names\<close>

lemma count_list_split:
  "c \<in> set s \<Longrightarrow>
   count_list s c = Suc (count_list (drop (Suc (length (takeWhile (\<lambda>x. x \<noteq> c) s))) s) c)"
  by (induction s) auto

lemma strCount_single: "strCount s [c] = count_list s c"
proof (induction s rule: length_induct)
  case (1 s)
  show ?case
  proof (cases "c \<in> set s")
    case False
    then show ?thesis
      by (subst strCount.simps) (simp add: Index_single)
  next
    case True
    let ?r = "drop (Suc (length (takeWhile (\<lambda>x. x \<noteq> c) s))) s"
    from True have "s \<noteq> []" by auto
    then have "length ?r < length s" by simp
    with 1 have "strCount ?r [c] = count_list ?r c" by blast
    with True show ?thesis
      by (subst strCount.simps) (simp add: Index_single count_list_split [OF True])
  qed
qed

lemma SplitN_two_first:
  "at (SplitN s [c] 2) 0 = Inr (takeWhile (\<lambda>x. x \<noteq> c) s)"
  by (simp add: SplitN_two_single at_def takeWhile_absent)

lemma wrap64_id: "- (2 ^ 63) \<le> n \<Longrightarrow> n < 2 ^ 63 \<Longrightarrow> wrap64 n = n"
  by (simp add: wrap64_def)

text \<open>Inside the length of the slice the capacity plays no part.\<close>

lemma sliceRunes_inside:
  assumes "0 \<le> lo" and "lo \<le> hi" and "hi \<le> int (length rs)"
  shows "sliceRunes rt rs lo hi = Inr (take (nat hi - nat lo) (drop (nat lo) rs))"
proof -
  from assms have "hi \<le> int (capOf rt rs)" by (simp add: capOf_def)
  moreover from assms have "nat hi - nat lo \<le> length rs - nat lo" by arith
  ultimately show ?thesis using assms by (simp add: sliceRunes_def)
qed

lemma parseEmote_wellFormed:
  assumes "wellFormedGroup (length rs) v"
  shows "parseEmote rt rs v = Inr (emoteOfGroup rs v)"
proof -
  let ?r = "firstRange v"
  from assms have colon: "CHR '':'' \<in> set v" and dash: "CHR ''-'' \<in> set ?r"
    and lo: "0 \<le> rangeFirst ?r" and le: "rangeFirst ?r \<le> rangeLast ?r + 1"
    and hi: "rangeLast ?r + 1 \<le> int (length rs)" and len: "int (length rs) < 2 ^ 63"
    by (simp_all add: wellFormedGroup_def)
  from lo le hi len have w: "wrap64 (rangeLast ?r + 1) = rangeLast ?r + 1"
    by (intro wrap64_id) simp_all
  from lo le have n: "nat (rangeLast ?r + 1) - nat (rangeFirst ?r) = nat (rangeLast ?r + 1 - rangeFirst ?r)"
    by arith
  have a1: "at (SplitN v '':'' 2) (Suc 0) = Inr (groupRanges v)"
    and a0: "at (SplitN v '':'' 2) 0 = Inr (groupID v)"
    using colon by (simp_all add: SplitN_two_single groupID_def groupRanges_def at_def)
  have p0: "at (SplitN (groupRanges v) '','' 2) 0 = Inr ?r"
    by (simp add: SplitN_two_first firstRange_def)
  have i0: "at (SplitN ?r ''-'' 2) 0 = Inr (takeWhile (\<lambda>x. x \<noteq> CHR ''-'') ?r)"
    and i1: "at (SplitN ?r ''-'' 2) (Suc 0) = Inr (tl (dropWhile (\<lambda>x. x \<noteq> CHR ''-'') ?r))"
    using dash by (simp_all add: SplitN_two_single at_def)
  have sl: "sliceRunes rt rs (rangeFirst ?r) (wrap64 (rangeLast ?r + 1)) =
      Inr (take (nat (rangeLast ?r + 1 - rangeFirst ?r)) (drop (nat (rangeFirst ?r)) rs))"
    using sliceRunes_inside [OF lo le hi, of rt] n by (simp add: w)
  have "parseEmote rt rs v =
      andThen (sliceRunes rt rs (rangeFirst ?r) (wrap64 (rangeLast ?r + 1)))
        (\<lambda>name. Inr \<lparr>Name = stringOfRunes name, ID = groupID v,
                       Count = int (strCount (groupRanges v) '','') + 1\<rparr>)"
    by (simp add: parseEmote_def Let_def a1 a0 p0 i0 i1 andThen_def rangeFirst_def rangeLast_def
        split: sum.splits)
  then show ?thesis
    by (simp add: sl andThen_def emoteOfGroup_def strCount_single)
qed


lemma forEach_map:
  "(\<And>x. x \<in> set xs \<Longrightarrow> f x = Inr (g x)) \<Longrightarrow> forEach f xs = Inr (map g xs)"
  by (induction xs) (simp_all add: andThen_def)

text \<open>On well-formed groups the dispatch-table \<open>parseEmotes\<close> returns one emote per
  group, the emote of that group, whatever the run time.\<close>

lemma parseEmotes_wellFormed:
  assumes "rawEmotes \<noteq> []"
    and "\<And>v. v \<in> set (Split rawEmotes ''/'') \<Longrightarrow> wellFormedGroup (length (runes message)) v"
  shows "parseEmotes rt rawEmotes message =
           Inr (map (emoteOfGroup (runes message)) (Split rawEmotes ''/''))"
  using assms by (simp add: parseEmotes_def forEach_map parseEmote_wellFormed)








lemma kappa_eval:
  "Split ''25:0-4,6-10'' ''/'' = [''25:0-4,6-10'']"
  "wellFormedGroup (length (runes ''Kappa Kappa'')) ''25:0-4,6-10''"
  "emoteOfGroup (runes ''Kappa Kappa'') ''25:0-4,6-10'' = \<lparr>Name = ''Kappa'', ID = ''25'', Count = 2\<rparr>"
  "runes ''Kappa Kappa'' = [75, 97, 112, 112, 97, 32, 75, 97, 112, 112, 97]"
  "stringOfRunes [75, 97, 112, 112] = ''Kapp''"
  by code_simp+

lemma kappa_v1_eval:
  "parseEmotes_v1 rt kappaMessage = Inr [\<lparr>Name = ''Kapp'', ID = ''25'', Count = 2\<rparr>]"
proof -
  have s: "sliceRunes rt [75, 97, 112, 112, 97, 32, 75, 97, 112, 112, 97] 0 4 = Inr [75, 97, 112, 112]"
    by (subst sliceRunes_inside) simp_all
  have "parseEmote_v1 rt (runes ''Kappa Kappa'') ''25:0-4,6-10'' =
      Inr \<lparr>Name = ''Kapp'', ID = ''25'', Count = 2\<rparr>"
    by (simp add: parseEmote_v1_def eval_defs s kappa_eval del: sliceRunes_def)
  then show ?thesis
    by (simp add: parseEmotes_v1_def kappaMessage_def tag_def kappa_eval andThen_def)
qed

text \<open>
  C4 fails in \<open>message.go\<close>: for the group \<open>25:0-4,6-10\<close> on the body
  \<open>Kappa Kappa\<close>, \<open>parseEmotes\<close> of \<open>message.go\<close> names the emote \<open>Kapp\<close>, the
  code points 0 to 3, where the first range is 0 to 4; \<open>parseEmotes\<close> of the
  dispatch-table decoder names it \<open>Kappa\<close>.  Both give the identifier \<open>25\<close> and the
  count 2, whatever the run time.
\<close>

theorem C4_emote_name_off_by_one:
  "parseEmotes_v1 rt kappaMessage = Inr [\<lparr>Name = ''Kapp'', ID = ''25'', Count = 2\<rparr>]
   \<and> parseEmotes rt ''25:0-4,6-10'' ''Kappa Kappa'' = Inr [\<lparr>Name = ''Kappa'', ID = ''25'', Count = 2\<rparr>]"
proof -
  have "parseEmotes rt ''25:0-4,6-10'' ''Kappa Kappa'' =
      Inr (map (emoteOfGroup (runes ''Kappa Kappa'')) (Split ''25:0-4,6-10'' ''/''))"
    by (rule parseEmotes_wellFormed) (simp_all add: kappa_eval(1,2))
  then show ?thesis
    by (simp add: kappa_v1_eval kappa_eval(1,3))
qed

end
